theory Spec2Isabelle
  imports Complex_Main
begin

section \<open>Moodbeats backend: mood filter, track aggregation and playlist store\<close>

text \<open>
  A shallow embedding of \<^verbatim>\<open>backend/server.js\<close> and
  \<^verbatim>\<open>backend/models/playlist.model.js\<close>.
  Every call to the catalog (an \<^verbatim>\<open>axios.get\<close>) is a parameter of the
  function that makes it: a function from the request to the outcome of the promise.
  JavaScript strings are byte strings in UTF-8, and \<^verbatim>\<open>undefined\<close>/\<^verbatim>\<open>null\<close>
  is \<open>None\<close>. Numbers are the reals they denote: the rounding of decimal numerals to
  doubles, in the catalog's JSON and in the source, is not modelled.
\<close>

subsection \<open>Values shared by the routes\<close>

text \<open>The outcome of an awaited catalog request: the promise rejects or resolves.\<close>

datatype 'a upstream = Rejected | Resolved 'a

text \<open>\<^verbatim>\<open>xs[i]\<close>: reading an array beyond its end gives \<^verbatim>\<open>undefined\<close>.\<close>

definition at_index :: "'a list \<Rightarrow> nat \<Rightarrow> 'a option" where
  "at_index xs i = (if i < length xs then Some (xs ! i) else None)"

text \<open>\<^verbatim>\<open>xs.filter((x, index) => p)\<close>: the callback sees the element and its index.\<close>

fun filter_indexed :: "('a \<Rightarrow> nat \<Rightarrow> bool) \<Rightarrow> nat \<Rightarrow> 'a list \<Rightarrow> 'a list" where
  "filter_indexed p i [] = []"
| "filter_indexed p i (x # xs) =
     (if p x i then x # filter_indexed p (Suc i) xs else filter_indexed p (Suc i) xs)"

text \<open>\<^verbatim>\<open>xs.join(sep)\<close>\<close>

fun join :: "string \<Rightarrow> string list \<Rightarrow> string" where
  "join sep [] = []"
| "join sep [x] = x"
| "join sep (x # y # ys) = x @ sep @ join sep (y # ys)"

text \<open>\<^verbatim>\<open>s || ''\<close> on an optional string.\<close>

definition or_empty :: "string option \<Rightarrow> string" where
  "or_empty s = (case s of None \<Rightarrow> [] | Some v \<Rightarrow> v)"

text \<open>An image object (of an album, of a playlist).\<close>

record image =
  url :: "string option"
  height :: "nat option"
  width :: "nat option"

text \<open>
  A track object of the catalog, with the fields the server reads. The id, the name
  and the artists (here: their names) are always there; the album, its images and the
  external urls may be missing.
\<close>

record album =
  al_name :: string
  al_id :: string
  al_images :: "image list option"
  al_available_markets :: "string list option"

record external_urls =
  spotify :: "string option"

record track =
  t_id :: string
  t_name :: string
  t_artists :: "string list"
  t_album :: "album option"
  t_external_urls :: "external_urls option"
  t_preview_url :: "string option"
  t_duration_ms :: nat
  t_uri :: string

subsection \<open>Mood filter\<close>

record features =
  valence :: real
  energy :: real
  danceability :: real

text \<open>A mood profile: for each feature the pair \<open>(lower, upper)\<close> of its range.\<close>

record mood_profile =
  mp_valence :: "real \<times> real"
  mp_energy :: "real \<times> real"
  mp_danceability :: "real \<times> real"

definition moodProfiles :: "string \<Rightarrow> mood_profile option" where
  "moodProfiles mood =
     (if mood = ''happy'' then
        Some \<lparr>mp_valence = (0.6, 1.0), mp_energy = (0.5, 1.0), mp_danceability = (0.5, 1.0)\<rparr>
      else if mood = ''neutral'' then
        Some \<lparr>mp_valence = (0.3, 0.6), mp_energy = (0.3, 0.7), mp_danceability = (0.3, 0.7)\<rparr>
      else if mood = ''angry'' then
        Some \<lparr>mp_valence = (0.0, 0.4), mp_energy = (0.7, 1.0), mp_danceability = (0.3, 0.8)\<rparr>
      else if mood = ''sad'' then
        Some \<lparr>mp_valence = (0.0, 0.3), mp_energy = (0.0, 0.5), mp_danceability = (0.0, 0.5)\<rparr>
      else None)"

text \<open>
  \<^verbatim>\<open>moodProfiles\<close> is an object literal, so \<^verbatim>\<open>moodProfiles[mood]\<close> also finds
  what the object inherits; each of these is a truthy value without ranges.
\<close>

definition inherited_keys :: "string list" where
  "inherited_keys =
     [''constructor'', ''__proto__'', ''hasOwnProperty'', ''isPrototypeOf'',
      ''propertyIsEnumerable'', ''toString'', ''toLocaleString'', ''valueOf'',
      ''__defineGetter__'', ''__defineSetter__'', ''__lookupGetter__'', ''__lookupSetter__'']"

text \<open>
  The test of the filter's callback on one entry of \<^verbatim>\<open>audio_features\<close>: an entry
  that is \<^verbatim>\<open>null\<close> or beyond the end of the array fails it.
\<close>

definition within_profile :: "mood_profile \<Rightarrow> features option \<Rightarrow> bool" where
  "within_profile moodProfile entry =
     (case entry of
        None \<Rightarrow> False
      | Some f \<Rightarrow>
          valence f \<ge> fst (mp_valence moodProfile) \<and>
          valence f \<le> snd (mp_valence moodProfile) \<and>
          energy f \<ge> fst (mp_energy moodProfile) \<and>
          energy f \<le> snd (mp_energy moodProfile) \<and>
          danceability f \<ge> fst (mp_danceability moodProfile) \<and>
          danceability f \<le> snd (mp_danceability moodProfile))"

text \<open>
  \<^verbatim>\<open>filterTracksByMood(tracks, mood)\<close>. The parameter \<open>audio_features_api\<close> is the
  request \<^verbatim>\<open>/v1/audio-features?ids=...\<close>: it takes the joined track ids and gives the
  array \<^verbatim>\<open>response.data.audio_features\<close> (\<open>None\<close> when the body has no such
  array, which makes the callback throw on its first call). Whatever is thrown inside
  the \<^verbatim>\<open>try\<close> is caught and the unfiltered tracks are returned. With an inherited
  key for a mood, the callback returns false on an entry that is missing and throws on
  the first entry that is there, when it reads the range.
\<close>

definition filterTracksByMood ::
  "(string \<Rightarrow> features option list option upstream) \<Rightarrow> track list \<Rightarrow> string \<Rightarrow> track list" where
  "filterTracksByMood audio_features_api tracks mood =
     (case moodProfiles mood of
        None \<Rightarrow>
          if mood \<in> set inherited_keys then
            (case audio_features_api (join '','' (map t_id tracks)) of
               Rejected \<Rightarrow> tracks
             | Resolved None \<Rightarrow> (if tracks = [] then [] else tracks)
             | Resolved (Some audio_features) \<Rightarrow>
                 if list_ex (\<lambda>entry. entry \<noteq> None) (take (length tracks) audio_features)
                 then tracks else [])
          else tracks
      | Some moodProfile \<Rightarrow>
          (case audio_features_api (join '','' (map t_id tracks)) of
             Rejected \<Rightarrow> tracks
           | Resolved None \<Rightarrow> (if tracks = [] then [] else tracks)
           | Resolved (Some audio_features) \<Rightarrow>
               filter_indexed
                 (\<lambda>track index.
                    within_profile moodProfile
                      (case at_index audio_features index of None \<Rightarrow> None | Some entry \<Rightarrow> entry))
                 0 tracks))"

subsection \<open>Documents and the store\<close>

text \<open>
  An ObjectId is the string that \<^verbatim>\<open>toString()\<close> gives for it. A collection is
  the list of its documents; \<^verbatim>\<open>findById\<close> and \<^verbatim>\<open>populate\<close> look documents
  up by \<^verbatim>\<open>_id\<close>, and \<^verbatim>\<open>populate\<close> drops a reference that resolves to no
  document. Identifiers in requests are well-formed ObjectIds, and reading the store
  does not fail; a write is accepted or refused, as the runtime says.
\<close>

type_synonym oid = string

record song =
  s_id :: oid
  s_spotifyId :: string
  title :: string
  s_artists :: "string list"
  s_album_name :: string
  s_album_spotifyId :: string
  s_album_image :: image
  durationMs :: nat
  previewUrl :: "string option"
  spotifyUri :: string
  addedAt :: nat

record playlist =
  p_id :: oid
  p_name :: string
  p_description :: "string option"
  p_spotifyId :: "string option"
  p_user :: oid
  p_songs :: "oid list"
  p_image :: image
  createdAt :: nat
  updatedAt :: nat

record user =
  u_id :: oid
  u_name :: "string option"
  username :: string
  email :: string
  password :: string
  u_spotifyId :: "string option"
  u_playlists :: "oid list"

record store =
  users :: "user list"
  playlists :: "playlist list"
  songs :: "song list"

definition findById :: "('d \<Rightarrow> oid) \<Rightarrow> 'd list \<Rightarrow> oid \<Rightarrow> 'd option" where
  "findById key coll i = find (\<lambda>d. key d = i) coll"

definition populate :: "('d \<Rightarrow> oid) \<Rightarrow> 'd list \<Rightarrow> oid list \<Rightarrow> 'd list" where
  "populate key coll refs = List.map_filter (findById key coll) refs"

text \<open>Writing a document: it replaces the stored document of its \<^verbatim>\<open>_id\<close>, or is inserted.\<close>

definition write_doc :: "('d \<Rightarrow> oid) \<Rightarrow> 'd \<Rightarrow> 'd list \<Rightarrow> 'd list" where
  "write_doc key d coll =
     (if key d \<in> key ` set coll then map (\<lambda>x. if key x = key d then d else x) coll
      else coll @ [d])"

text \<open>
  What a request takes from its surroundings: the clock (\<^verbatim>\<open>Date.now()\<close>), the
  ObjectId generated for a new document, whether the store accepts the request's
  \<open>k\<close>-th write, and the engine's \<^verbatim>\<open>String.prototype.toLowerCase\<close>.
\<close>

record runtime =
  now :: nat
  newObjectId :: oid
  write_ok :: "nat \<Rightarrow> bool"
  toLowerCase :: "string \<Rightarrow> string"

text \<open>\<^verbatim>\<open>toLowerCase\<close> on ASCII text, for concrete requests.\<close>

definition ascii_toLowerCase :: "string \<Rightarrow> string" where
  "ascii_toLowerCase s =
     map (\<lambda>c. if (65::nat) \<le> of_char c \<and> of_char c \<le> (90::nat)
              then char_of (of_char c + (32::nat)) else c) s"

subsection \<open>playlist.model.js\<close>

text \<open>
  The \<^verbatim>\<open>pre('save')\<close> hook, and \<^verbatim>\<open>this.save()\<close>: the hook runs, then the
  document is written; \<open>None\<close> when the store refuses the write. A method takes the
  document \<open>this\<close> and the store, and returns both as they are after the call, or the
  error it throws. A document is a value here: what a method changed in memory before
  a refused save is dropped with the error, as the routes drop the document then.
\<close>

definition pre_save :: "nat \<Rightarrow> playlist \<Rightarrow> playlist" where
  "pre_save clock this = this\<lparr>updatedAt := clock\<rparr>"

definition save :: "bool \<Rightarrow> nat \<Rightarrow> store \<Rightarrow> playlist \<Rightarrow> (playlist \<times> store) option" where
  "save accepted clock db this =
     (if accepted then
        Some (pre_save clock this,
              db\<lparr>playlists := write_doc p_id (pre_save clock this) (playlists db)\<rparr>)
      else None)"

datatype method_error = ErrorAddingSong | ErrorRemovingSong | ErrorSyncing

definition addSong ::
  "bool \<Rightarrow> nat \<Rightarrow> store \<Rightarrow> playlist \<Rightarrow> oid \<Rightarrow> method_error + playlist \<times> store" where
  "addSong accepted clock db this songId =
     (if songId \<notin> set (p_songs this) then
        (case save accepted clock db (this\<lparr>p_songs := p_songs this @ [songId]\<rparr>) of
           None \<Rightarrow> Inl ErrorAddingSong
         | Some saved \<Rightarrow> Inr saved)
      else Inr (this, db))"

definition removeSong ::
  "bool \<Rightarrow> nat \<Rightarrow> store \<Rightarrow> playlist \<Rightarrow> oid \<Rightarrow> method_error + playlist \<times> store" where
  "removeSong accepted clock db this songId =
     (case save accepted clock db
             (this\<lparr>p_songs := filter (\<lambda>i. i \<noteq> songId) (p_songs this)\<rparr>) of
        None \<Rightarrow> Inl ErrorRemovingSong
      | Some saved \<Rightarrow> Inr saved)"

text \<open>The catalog's playlist object, as \<^verbatim>\<open>syncWithSpotify\<close> reads it.\<close>

record spotify_data =
  sd_name :: "string option"
  sd_description :: "string option"
  sd_id :: "string option"
  sd_images :: "image list option"

text \<open>\<^verbatim>\<open>a || b\<close> on strings: \<open>a\<close> unless it is missing or empty.\<close>

definition truthy :: "string option \<Rightarrow> bool" where
  "truthy a = (case a of None \<Rightarrow> False | Some v \<Rightarrow> v \<noteq> [])"

definition syncWithSpotify ::
  "bool \<Rightarrow> nat \<Rightarrow> store \<Rightarrow> playlist \<Rightarrow> spotify_data \<Rightarrow> method_error + playlist \<times> store" where
  "syncWithSpotify accepted clock db this spotifyData =
     (let this1 = this\<lparr>p_name := (if truthy (sd_name spotifyData)
                                     then the (sd_name spotifyData) else p_name this)\<rparr>;
          this2 = this1\<lparr>p_description := (if truthy (sd_description spotifyData)
                                     then sd_description spotifyData else p_description this1)\<rparr>;
          this3 = this2\<lparr>p_spotifyId := (if truthy (sd_id spotifyData)
                                     then sd_id spotifyData else p_spotifyId this2)\<rparr>;
          this4 = (case sd_images spotifyData of
                     None \<Rightarrow> this3
                   | Some [] \<Rightarrow> this3
                   | Some (first # others) \<Rightarrow>
                       this3\<lparr>p_image := \<lparr>url = url first, height = height first,
                                           width = width first\<rparr>\<rparr>)
      in case save accepted clock db this4 of
           None \<Rightarrow> Inl ErrorSyncing
         | Some saved \<Rightarrow> Inr saved)"

subsection \<open>The playlist routes of server.js\<close>

record song_view =
  sv_id :: oid
  sv_spotifyId :: string
  sv_title :: string
  sv_artists :: "string list"
  sv_album :: string
  sv_image :: "string option"
  sv_previewUrl :: "string option"
  sv_spotifyUri :: string

record playlist_view =
  pv_id :: oid
  pv_name :: string
  pv_description :: "string option"
  pv_songs :: "song_view list"
  pv_image :: image
  pv_createdAt :: nat
  pv_updatedAt :: nat

record playback_view =
  pb_playlistId :: oid
  pb_name :: string
  pb_songs :: "song_view list"

text \<open>The songs of the aggregation routes, as they are sent.\<close>

record mixed_song =
  ms_id :: string
  ms_name :: string
  ms_artists :: string
  ms_primary_artist :: string
  ms_language :: string
  ms_image :: string
  ms_external_url :: string
  ms_preview_url :: string

record hit_song =
  hs_id :: string
  hs_name :: string
  hs_artists :: string
  hs_image :: string
  hs_external_url :: "string option"
  hs_preview_url :: "string option"
  hs_language :: string

text \<open>A response: \<^verbatim>\<open>res.status(code).json(body)\<close>.\<close>

datatype body =
    ErrorMessage string
  | PlaylistBody playlist_view
  | PlaylistList "playlist_view list"
  | PlaybackBody playback_view
  | MixedSongs "mixed_song list"
  | HitSongs "hit_song list"

type_synonym reply = "nat \<times> body"

text \<open>\<^verbatim>\<open>s || null\<close>\<close>

definition or_null :: "string option \<Rightarrow> string option" where
  "or_null s = (if truthy s then s else None)"

definition song_json :: "song \<Rightarrow> song_view" where
  "song_json song =
     \<lparr>sv_id = s_id song, sv_spotifyId = s_spotifyId song, sv_title = title song,
      sv_artists = s_artists song, sv_album = s_album_name song,
      sv_image = or_null (url (s_album_image song)), sv_previewUrl = previewUrl song,
      sv_spotifyUri = spotifyUri song\<rparr>"

text \<open>The playlist with its songs populated, as the routes send it.\<close>

definition playlist_json :: "store \<Rightarrow> playlist \<Rightarrow> playlist_view" where
  "playlist_json db playlist =
     \<lparr>pv_id = p_id playlist, pv_name = p_name playlist,
      pv_description = p_description playlist,
      pv_songs = map song_json (populate s_id (songs db) (p_songs playlist)),
      pv_image = p_image playlist, pv_createdAt = createdAt playlist,
      pv_updatedAt = updatedAt playlist\<rparr>"

definition no_image :: image where
  "no_image = \<lparr>url = None, height = None, width = None\<rparr>"

text \<open>\<^verbatim>\<open>POST /api/playlists\<close>: \<open>name\<close> and \<open>description\<close> are the fields of the
  request's body, \<open>userId\<close> the identity the session middleware resolved.\<close>

definition create_playlist ::
  "runtime \<Rightarrow> store \<Rightarrow> oid \<Rightarrow> string option \<Rightarrow> string option \<Rightarrow> reply \<times> store" where
  "create_playlist rt db userId name description =
     (if \<not> truthy name then ((400, ErrorMessage ''Playlist name is required''), db)
      else
        (case findById u_id (users db) userId of
           None \<Rightarrow> ((404, ErrorMessage ''User not found''), db)
         | Some user \<Rightarrow>
             (case find (\<lambda>p. toLowerCase rt (p_name p) = toLowerCase rt (the name))
                     (populate p_id (playlists db) (u_playlists user)) of
                Some existingPlaylist \<Rightarrow>
                  ((400, ErrorMessage ''A playlist with this name already exists''), db)
              | None \<Rightarrow>
                  (case save (write_ok rt 0) (now rt) db
                          \<lparr>p_id = newObjectId rt, p_name = the name,
                           p_description = Some (or_empty description), p_spotifyId = None,
                           p_user = userId, p_songs = [], p_image = no_image,
                           createdAt = now rt, updatedAt = now rt\<rparr> of
                     None \<Rightarrow> ((500, ErrorMessage ''Failed to create playlist''), db)
                   | Some (playlist, db1) \<Rightarrow>
                       if write_ok rt 1 then
                         ((201, PlaylistBody
                                  \<lparr>pv_id = p_id playlist, pv_name = p_name playlist,
                                   pv_description = p_description playlist, pv_songs = [],
                                   pv_image = p_image playlist,
                                   pv_createdAt = createdAt playlist,
                                   pv_updatedAt = updatedAt playlist\<rparr>),
                          db1\<lparr>users := write_doc u_id
                                 (user\<lparr>u_playlists := u_playlists user @ [p_id playlist]\<rparr>)
                                 (users db1)\<rparr>)
                       else ((500, ErrorMessage ''Failed to create playlist''), db1)))))"

text \<open>\<^verbatim>\<open>GET /api/playlists\<close>: the filter with its set \<^verbatim>\<open>seenNames\<close>.\<close>

fun uniquePlaylists :: "(string \<Rightarrow> string) \<Rightarrow> string set \<Rightarrow> playlist list \<Rightarrow> playlist list" where
  "uniquePlaylists lower seenNames [] = []"
| "uniquePlaylists lower seenNames (playlist # rest) =
     (if lower (p_name playlist) \<in> seenNames then uniquePlaylists lower seenNames rest
      else playlist # uniquePlaylists lower (insert (lower (p_name playlist)) seenNames) rest)"

definition list_playlists :: "runtime \<Rightarrow> store \<Rightarrow> oid \<Rightarrow> reply" where
  "list_playlists rt db userId =
     (case findById u_id (users db) userId of
        None \<Rightarrow> (404, ErrorMessage ''User not found'')
      | Some user \<Rightarrow>
          (200, PlaylistList
                  (map (playlist_json db)
                     (uniquePlaylists (toLowerCase rt) {}
                        (populate p_id (playlists db) (u_playlists user))))))"

text \<open>
  \<^verbatim>\<open>POST /api/playlists/:playlistId/songs\<close>. \<open>track_api\<close> is the request
  \<^verbatim>\<open>/v1/tracks/:id\<close> (with the token it needs). The song is upserted by its catalog id
  (write 0), then added to the playlist (write 1).
  \<open>song_of_track\<close> is the update that the route builds from the track; \<open>None\<close> when
  building it throws (no album, no images). The \<^verbatim>\<open>_id\<close> and \<^verbatim>\<open>addedAt\<close> of the
  document are set by \<open>findOneAndUpdate\<close>: kept when a song with this catalog id exists,
  fresh otherwise.
\<close>

definition song_of_track :: "track \<Rightarrow> song option" where
  "song_of_track track =
     (case t_album track of
        None \<Rightarrow> None
      | Some album \<Rightarrow>
          (case al_images album of
             None \<Rightarrow> None
           | Some images \<Rightarrow>
               Some \<lparr>s_id = [], s_spotifyId = t_id track, title = t_name track,
                     s_artists = t_artists track, s_album_name = al_name album,
                     s_album_spotifyId = al_id album,
                     s_album_image = (case images of
                                        [] \<Rightarrow> no_image
                                      | first # others \<Rightarrow>
                                          \<lparr>url = url first, height = height first,
                                           width = width first\<rparr>),
                     durationMs = t_duration_ms track, previewUrl = t_preview_url track,
                     spotifyUri = t_uri track, addedAt = 0\<rparr>))"

definition findOneAndUpdate :: "runtime \<Rightarrow> store \<Rightarrow> song \<Rightarrow> song \<times> store" where
  "findOneAndUpdate rt db doc =
     (case find (\<lambda>s. s_spotifyId s = s_spotifyId doc) (songs db) of
        Some existing \<Rightarrow>
          (doc\<lparr>s_id := s_id existing, addedAt := addedAt existing\<rparr>,
           db\<lparr>songs := write_doc s_id
                           (doc\<lparr>s_id := s_id existing, addedAt := addedAt existing\<rparr>)
                           (songs db)\<rparr>)
      | None \<Rightarrow>
          (doc\<lparr>s_id := newObjectId rt, addedAt := now rt\<rparr>,
           db\<lparr>songs := songs db @ [doc\<lparr>s_id := newObjectId rt, addedAt := now rt\<rparr>]\<rparr>))"

definition add_song_route ::
  "runtime \<Rightarrow> (string \<Rightarrow> track upstream) \<Rightarrow> store \<Rightarrow> oid \<Rightarrow> string option \<Rightarrow> oid \<Rightarrow>
     reply \<times> store" where
  "add_song_route rt track_api db playlistId spotifyId userId =
     (if \<not> truthy spotifyId then ((400, ErrorMessage ''Spotify track ID is required''), db)
      else
        (case findById p_id (playlists db) playlistId of
           None \<Rightarrow> ((404, ErrorMessage ''Playlist not found''), db)
         | Some playlist \<Rightarrow>
             if p_user playlist \<noteq> userId then
               ((403, ErrorMessage ''Unauthorized: Not your playlist''), db)
             else
               (case track_api (the spotifyId) of
                  Rejected \<Rightarrow> ((500, ErrorMessage ''Failed to add song to playlist''), db)
                | Resolved track \<Rightarrow>
                    (case song_of_track track of
                       None \<Rightarrow> ((500, ErrorMessage ''Failed to add song to playlist''), db)
                     | Some doc \<Rightarrow>
                         if \<not> write_ok rt 0 then
                           ((500, ErrorMessage ''Failed to add song to playlist''), db)
                         else
                           (case findOneAndUpdate rt db doc of
                              (song, db1) \<Rightarrow>
                                (case addSong (write_ok rt 1) (now rt) db1 playlist (s_id song) of
                                   Inl e \<Rightarrow>
                                     ((500, ErrorMessage ''Failed to add song to playlist''), db1)
                                 | Inr (playlist2, db2) \<Rightarrow>
                                     ((200, PlaylistBody (playlist_json db2 playlist2)), db2)))))))"

text \<open>
  \<^verbatim>\<open>DELETE /api/playlists/:playlistId/songs/:songId\<close>. The callback that builds the
  response's songs reads the variable \<^verbatim>\<open>savsong\<close>, which is declared nowhere: its
  first call throws a ReferenceError, caught by the route's \<^verbatim>\<open>catch\<close>. With no song
  left to map the callback is never called.
\<close>

definition remove_song_route :: "runtime \<Rightarrow> store \<Rightarrow> oid \<Rightarrow> oid \<Rightarrow> oid \<Rightarrow> reply \<times> store" where
  "remove_song_route rt db playlistId songId userId =
     (case findById p_id (playlists db) playlistId of
        None \<Rightarrow> ((404, ErrorMessage ''Playlist not found''), db)
      | Some playlist \<Rightarrow>
          if p_user playlist \<noteq> userId then
            ((403, ErrorMessage ''Unauthorized: Not your playlist''), db)
          else
            (case removeSong (write_ok rt 0) (now rt) db playlist songId of
               Inl e \<Rightarrow> ((500, ErrorMessage ''Failed to remove song from playlist''), db)
             | Inr (playlist1, db1) \<Rightarrow>
                 (case populate s_id (songs db1) (p_songs playlist1) of
                    [] \<Rightarrow>
                      ((200, PlaylistBody
                               \<lparr>pv_id = p_id playlist1, pv_name = p_name playlist1,
                                pv_description = p_description playlist1, pv_songs = [],
                                pv_image = p_image playlist1,
                                pv_createdAt = createdAt playlist1,
                                pv_updatedAt = updatedAt playlist1\<rparr>), db1)
                  | song # others \<Rightarrow>
                      ((500, ErrorMessage ''Failed to remove song from playlist''), db1))))"

text \<open>\<^verbatim>\<open>GET /api/playlists/:playlistId/play\<close>\<close>

definition play_route :: "store \<Rightarrow> oid \<Rightarrow> oid \<Rightarrow> reply" where
  "play_route db playlistId userId =
     (case findById p_id (playlists db) playlistId of
        None \<Rightarrow> (404, ErrorMessage ''Playlist not found'')
      | Some playlist \<Rightarrow>
          if p_user playlist \<noteq> userId then
            (403, ErrorMessage ''Unauthorized: Not your playlist'')
          else
            (200, PlaybackBody
                    \<lparr>pb_playlistId = p_id playlist, pb_name = p_name playlist,
                     pb_songs = map song_json (populate s_id (songs db) (p_songs playlist))\<rparr>))"

subsection \<open>The aggregation routes of server.js\<close>

text \<open>
  The routes are modelled from the point where the access token is there. The comparator
  \<^verbatim>\<open>() => 0.5 - Math.random()\<close> makes \<^verbatim>\<open>sort\<close> a shuffle; the order it produces is
  the parameter \<open>shuffle\<close>.
\<close>

record artist_source =
  a_id :: string
  a_name :: string
  a_count :: nat
  a_language :: string

definition mixed_artists :: "artist_source list" where
  "mixed_artists =
     [\<lparr>a_id = ''6eUKZXaKkcviH0Ku9w2n3V'', a_name = ''Ed Sheeran'', a_count = 4, a_language = ''english''\<rparr>,
      \<lparr>a_id = ''4YRxDV8wJFPHPTeXepOstw'', a_name = ''Arijit Singh'', a_count = 7, a_language = ''hindi''\<rparr>,
      \<lparr>a_id = ''5f4QpKfy7ptCHwTqspnSJI'', a_name = ''Neha Kakkar'', a_count = 2, a_language = ''hindi''\<rparr>,
      \<lparr>a_id = ''2FKWNmZWDBZR4dE5KX4plR'', a_name = ''Diljit Dosanjh'', a_count = 7, a_language = ''punjabi''\<rparr>,
      \<lparr>a_id = ''6cEuCEZuGdZg4X9UrhWZ1i'', a_name = ''Yung Kai Blue'', a_count = 3, a_language = ''punjabi''\<rparr>]"

definition mixed1_artists :: "artist_source list" where
  "mixed1_artists =
     [\<lparr>a_id = ''6eUKZXaKkcviH0Ku9w2n3V'', a_name = ''Ed Sheeran'', a_count = 10, a_language = ''english''\<rparr>,
      \<lparr>a_id = ''6cEuCEZuGdZg4X9UrhWZ1i'', a_name = ''Yung Kai Blue'', a_count = 5, a_language = ''english''\<rparr>,
      \<lparr>a_id = ''06HL4z0CvFAxyc27GXpf02'', a_name = ''Taylor Swift'', a_count = 10, a_language = ''english''\<rparr>,
      \<lparr>a_id = ''6M2wZ9GZgrQXHCFfjv46DL'', a_name = ''Dua Lipa'', a_count = 8, a_language = ''english''\<rparr>,
      \<lparr>a_id = ''1Xyo4u8uXC1ZmMpatF05PJ'', a_name = ''The Weeknd'', a_count = 8, a_language = ''english''\<rparr>,
      \<lparr>a_id = ''7iK8PXO48WeuP03g8YR51W'', a_name = ''Billie Eilish'', a_count = 7, a_language = ''english''\<rparr>,
      \<lparr>a_id = ''4V8Sr092nmH6rQvmV0d3zF'', a_name = ''Post Malone'', a_count = 7, a_language = ''english''\<rparr>,
      \<lparr>a_id = ''0C8ZW7ezQVs4urJTLi2c5B'', a_name = ''Coldplay'', a_count = 6, a_language = ''english''\<rparr>,
      \<lparr>a_id = ''6KImCVD70vtIoJWnq6nGn3'', a_name = ''Harry Styles'', a_count = 6, a_language = ''english''\<rparr>,
      \<lparr>a_id = ''4YRxDV8wJFPHPTeXepOstw'', a_name = ''Arijit Singh'', a_count = 10, a_language = ''hindi''\<rparr>,
      \<lparr>a_id = ''0oOet2f43PA68X5RxKobEy'', a_name = ''Shreya Ghoshal'', a_count = 8, a_language = ''hindi''\<rparr>,
      \<lparr>a_id = ''5f4QpKfy7ptCHwTqspnSJI'', a_name = ''Neha Kakkar'', a_count = 7, a_language = ''hindi''\<rparr>,
      \<lparr>a_id = ''2FKWNmZWDBZR4dE5KX4plR'', a_name = ''Diljit Dosanjh'', a_count = 8, a_language = ''punjabi''\<rparr>,
      \<lparr>a_id = ''4PULA4EFzYTrxYvOVlwpiQ'', a_name = ''Sidhu Moosewala'', a_count = 7, a_language = ''punjabi''\<rparr>,
      \<lparr>a_id = ''5XacWe2kM6K9G2QJ1q8u0E'', a_name = ''Satinder Sartaaj'', a_count = 7, a_language = ''punjabi''\<rparr>,
      \<lparr>a_id = ''6gBhqjKxay1g6pDm1c4G1e'', a_name = ''Karan Aujla'', a_count = 7, a_language = ''punjabi''\<rparr>,
      \<lparr>a_id = ''0GF4shudTAFv8ak9eWdd4Y'', a_name = ''Kishore Kumar'', a_count = 6, a_language = ''hindi''\<rparr>,
      \<lparr>a_id = ''1mYsTxnqsietFxj1OgoGbG'', a_name = ''A.R. Rahman'', a_count = 6, a_language = ''hindi''\<rparr>]"

text \<open>\<^verbatim>\<open>{...track, primary_artist: artist.name, language: artist.language}\<close>\<close>

record tagged_track =
  tt_track :: track
  primary_artist :: string
  language :: string

definition tag :: "artist_source \<Rightarrow> track \<Rightarrow> tagged_track" where
  "tag artist track =
     \<lparr>tt_track = track, primary_artist = a_name artist, language = a_language artist\<rparr>"

text \<open>
  The loop over the artists with its array \<^verbatim>\<open>allTracks\<close>. \<open>top_tracks_api\<close> is the
  request \<^verbatim>\<open>/v1/artists/:id/top-tracks\<close>, giving \<^verbatim>\<open>response.data.tracks\<close>; the
  \<^verbatim>\<open>catch\<close> inside the loop logs the error and the loop goes on.
\<close>

fun collect_top_tracks ::
  "(string \<Rightarrow> track list option upstream) \<Rightarrow> artist_source list \<Rightarrow> tagged_track list \<Rightarrow>
     tagged_track list" where
  "collect_top_tracks top_tracks_api [] allTracks = allTracks"
| "collect_top_tracks top_tracks_api (artist # rest) allTracks =
     (case top_tracks_api (a_id artist) of
        Rejected \<Rightarrow> collect_top_tracks top_tracks_api rest allTracks
      | Resolved None \<Rightarrow> collect_top_tracks top_tracks_api rest allTracks
      | Resolved (Some tracks) \<Rightarrow>
          if length tracks > 0 then
            collect_top_tracks top_tracks_api rest
              (allTracks @ map (tag artist) (take (a_count artist) tracks))
          else collect_top_tracks top_tracks_api rest allTracks)"

text \<open>\<^verbatim>\<open>album?.images?.[0]?.url\<close>\<close>

definition first_image_url :: "album option \<Rightarrow> string option" where
  "first_image_url album =
     (case album of
        None \<Rightarrow> None
      | Some al \<Rightarrow>
          (case al_images al of
             None \<Rightarrow> None
           | Some [] \<Rightarrow> None
           | Some (first # others) \<Rightarrow> url first))"

definition mixed_song_of :: "tagged_track \<Rightarrow> mixed_song" where
  "mixed_song_of tagged =
     \<lparr>ms_id = t_id (tt_track tagged), ms_name = t_name (tt_track tagged),
      ms_artists = join '', '' (t_artists (tt_track tagged)),
      ms_primary_artist = primary_artist tagged, ms_language = language tagged,
      ms_image = or_empty (first_image_url (t_album (tt_track tagged))),
      ms_external_url =
        or_empty (case t_external_urls (tt_track tagged) of
                    None \<Rightarrow> None | Some urls \<Rightarrow> spotify urls),
      ms_preview_url = or_empty (t_preview_url (tt_track tagged))\<rparr>"

text \<open>\<^verbatim>\<open>GET /api/mixed\<close> and \<^verbatim>\<open>GET /api/mixed1\<close>\<close>

definition mixed ::
  "(string \<Rightarrow> track list option upstream) \<Rightarrow> (mixed_song list \<Rightarrow> mixed_song list) \<Rightarrow> reply" where
  "mixed top_tracks_api shuffle =
     (200, MixedSongs
             (shuffle (map mixed_song_of (collect_top_tracks top_tracks_api mixed_artists []))))"

definition mixed1 ::
  "(string \<Rightarrow> track list option upstream) \<Rightarrow> (mixed_song list \<Rightarrow> mixed_song list) \<Rightarrow> reply" where
  "mixed1 top_tracks_api shuffle =
     (200, MixedSongs
             (take 50
                (shuffle
                   (map mixed_song_of (collect_top_tracks top_tracks_api mixed1_artists [])))))"

text \<open>
  \<^verbatim>\<open>GET /api/mixed-hits\<close>: three curated lists, fetched with \<^verbatim>\<open>Promise.all\<close>.
  \<open>playlist_tracks_api\<close> is the request \<^verbatim>\<open>/v1/playlists/:id/tracks?limit=n\<close>, giving
  \<^verbatim>\<open>data.items\<close>. The two character classes of the route are matched on the UTF-8
  bytes of the title: U+0905 to U+0939, and U+0A01 to U+0A74.
\<close>

definition playlists_english :: string where
  "playlists_english = ''37i9dQZF1DXcBWIGoYBM5M''"

definition playlists_punjabi :: string where
  "playlists_punjabi = ''37i9dQZF1DWSVl9DWKB8AR''"

definition playlists_hindi :: string where
  "playlists_hindi = ''37i9dQZF1DX0XUsuxWHRQd''"

record playlist_item =
  item_track :: "track option"

fun has_devanagari :: "string \<Rightarrow> bool" where
  "has_devanagari (a # b # c # rest) =
     ((of_char a = (224::nat) \<and> of_char b = (164::nat) \<and>
       (133::nat) \<le> of_char c \<and> of_char c \<le> (185::nat))
      \<or> has_devanagari (b # c # rest))"
| "has_devanagari short = False"

fun has_gurmukhi :: "string \<Rightarrow> bool" where
  "has_gurmukhi (a # b # c # rest) =
     ((of_char a = (224::nat) \<and>
       ((of_char b = (168::nat) \<and> (129::nat) \<le> of_char c \<and> of_char c \<le> (191::nat)) \<or>
        (of_char b = (169::nat) \<and> (128::nat) \<le> of_char c \<and> of_char c \<le> (180::nat))))
      \<or> has_gurmukhi (b # c # rest))"
| "has_gurmukhi short = False"

definition hit_language :: "album \<Rightarrow> string \<Rightarrow> string" where
  "hit_language album name =
     (if (case al_available_markets album of
            None \<Rightarrow> False
          | Some markets \<Rightarrow> ''IN'' \<in> set markets)
      then (if has_devanagari name then ''hindi''
            else if has_gurmukhi name then ''punjabi'' else ''english'')
      else ''english'')"

text \<open>The song sent for a track; \<open>None\<close> when building it throws a TypeError (no album,
  no images, no external urls).\<close>

definition hit_song_of :: "track \<Rightarrow> hit_song option" where
  "hit_song_of track =
     (case t_album track of
        None \<Rightarrow> None
      | Some album \<Rightarrow>
          (case al_images album of
             None \<Rightarrow> None
           | Some images \<Rightarrow>
               (case t_external_urls track of
                  None \<Rightarrow> None
                | Some urls \<Rightarrow>
                    Some \<lparr>hs_id = t_id track, hs_name = t_name track,
                          hs_artists = join '', '' (t_artists track),
                          hs_image = or_empty (case images of
                                                 [] \<Rightarrow> None
                                               | first # others \<Rightarrow> url first),
                          hs_external_url = spotify urls,
                          hs_preview_url = t_preview_url track,
                          hs_language = hit_language album (t_name track)\<rparr>)))"

definition mixed_hits ::
  "(string \<Rightarrow> nat \<Rightarrow> playlist_item list upstream) \<Rightarrow> (track list \<Rightarrow> track list) \<Rightarrow> reply" where
  "mixed_hits playlist_tracks_api shuffle =
     (case playlist_tracks_api playlists_english 20 of
        Rejected \<Rightarrow> (500, ErrorMessage ''Failed to fetch songs'')
      | Resolved english \<Rightarrow>
          (case playlist_tracks_api playlists_punjabi 15 of
             Rejected \<Rightarrow> (500, ErrorMessage ''Failed to fetch songs'')
           | Resolved punjabi \<Rightarrow>
               (case playlist_tracks_api playlists_hindi 15 of
                  Rejected \<Rightarrow> (500, ErrorMessage ''Failed to fetch songs'')
                | Resolved hindi \<Rightarrow>
                    (case those (map hit_song_of
                                  (shuffle (List.map_filter item_track
                                              (english @ punjabi @ hindi)))) of
                       None \<Rightarrow> (500, ErrorMessage ''Failed to fetch songs'')
                     | Some sent \<Rightarrow> (200, HitSongs (take 50 sent))))))"

subsection \<open>Concrete documents and requests\<close>

definition image1 :: image where
  "image1 = \<lparr>url = Some ''http://img/1'', height = Some 64, width = Some 64\<rparr>"

definition song1 :: song where
  "song1 = \<lparr>s_id = ''s1'', s_spotifyId = ''sp1'', title = ''One'', s_artists = [''A''],
     s_album_name = ''Album'', s_album_spotifyId = ''al1'', s_album_image = image1,
     durationMs = 1000, previewUrl = None, spotifyUri = ''uri1'', addedAt = 1\<rparr>"

definition song2 :: song where
  "song2 = song1\<lparr>s_id := ''s2'', s_spotifyId := ''sp2'', title := ''Two''\<rparr>"

definition playlist1 :: playlist where
  "playlist1 = \<lparr>p_id = ''p1'', p_name = ''Chill'', p_description = Some [], p_spotifyId = None,
     p_user = ''u1'', p_songs = [''s1'', ''s2''], p_image = no_image, createdAt = 1,
     updatedAt = 2\<rparr>"

definition user1 :: user where
  "user1 = \<lparr>u_id = ''u1'', u_name = None, username = ''ann'', email = ''ann@example.org'',
     password = ''hash'', u_spotifyId = None, u_playlists = [''p1'']\<rparr>"

definition store1 :: store where
  "store1 = \<lparr>users = [user1], playlists = [playlist1], songs = [song1, song2]\<rparr>"

definition runtime1 :: runtime where
  "runtime1 = \<lparr>now = 7, newObjectId = ''n1'', write_ok = (\<lambda>k. True),
     toLowerCase = ascii_toLowerCase\<rparr>"

definition album1 :: album where
  "album1 = \<lparr>al_name = ''Album'', al_id = ''al1'', al_images = Some [image1],
     al_available_markets = Some [''IN'', ''US'']\<rparr>"

definition track1 :: track where
  "track1 = \<lparr>t_id = ''sp1'', t_name = ''Lover'', t_artists = [''A'', ''B''],
     t_album = Some album1, t_external_urls = Some \<lparr>spotify = Some ''http://open/sp1''\<rparr>,
     t_preview_url = None, t_duration_ms = 1000, t_uri = ''uri1''\<rparr>"

definition playlist2 :: playlist where
  "playlist2 = playlist1\<lparr>p_id := ''p2'', p_name := ''chill'', p_songs := []\<rparr>"

definition playlist3 :: playlist where
  "playlist3 = playlist1\<lparr>p_id := ''p3'', p_name := ''Work'', p_songs := [''s2'']\<rparr>"

text \<open>
  A store with two owners: u1 references Chill, chill and Work in this order, u2
  references Gym, and the collection holds the four playlists in another order.
\<close>

definition playlist0 :: playlist where
  "playlist0 = playlist1\<lparr>p_id := ''p0'', p_name := ''Gym'', p_user := ''u2'', p_songs := []\<rparr>"

definition user2 :: user where
  "user2 = user1\<lparr>u_id := ''u2'', username := ''bob'', email := ''bob@example.org'',
     u_playlists := [''p0'']\<rparr>"

definition store3 :: store where
  "store3 = \<lparr>users = [user2, user1\<lparr>u_playlists := [''p1'', ''p2'', ''p3'']\<rparr>],
     playlists = [playlist3, playlist0, playlist2, playlist1], songs = [song1, song2]\<rparr>"

text \<open>Catalog answers: one artist's request is rejected, one artist has three tracks.\<close>

definition top_tracks1 :: "string \<Rightarrow> track list option upstream" where
  "top_tracks1 artistId =
     (if artistId = ''6eUKZXaKkcviH0Ku9w2n3V'' then Rejected
      else if artistId = ''5f4QpKfy7ptCHwTqspnSJI''
        then Resolved (Some [track1, track1\<lparr>t_id := ''sp2''\<rparr>, track1\<lparr>t_id := ''sp3''\<rparr>])
      else Resolved (Some []))"

definition hits1 :: "string \<Rightarrow> nat \<Rightarrow> playlist_item list upstream" where
  "hits1 playlistId limit =
     (if playlistId = playlists_english then Resolved []
      else if playlistId = playlists_punjabi then Resolved [\<lparr>item_track = Some track1\<rparr>]
      else Resolved [])"

definition hits2 :: "string \<Rightarrow> nat \<Rightarrow> playlist_item list upstream" where
  "hits2 playlistId limit =
     (if playlistId = playlists_english then Resolved [\<lparr>item_track = Some track1\<rparr>]
      else if playlistId = playlists_punjabi then Rejected
      else Resolved [])"

text \<open>
  Three titles of one character each, in UTF-8: U+0915 (in the first class of the
  route), U+0950 (Devanagari, but in neither class) and U+0A15 (in the second class).
  All three tracks are in the list configured as english.
\<close>

definition track_ka :: track where
  "track_ka = track1\<lparr>t_id := ''sp4'', t_name := [CHR 0xE0, CHR 0xA4, CHR 0x95]\<rparr>"

definition track_om :: track where
  "track_om = track1\<lparr>t_id := ''sp5'', t_name := [CHR 0xE0, CHR 0xA5, CHR 0x90]\<rparr>"

definition track_gu :: track where
  "track_gu = track1\<lparr>t_id := ''sp6'', t_name := [CHR 0xE0, CHR 0xA8, CHR 0x95]\<rparr>"

definition hits4 :: "string \<Rightarrow> nat \<Rightarrow> playlist_item list upstream" where
  "hits4 playlistId limit =
     (if playlistId = playlists_english
      then Resolved [\<lparr>item_track = Some track_ka\<rparr>, \<lparr>item_track = Some track_om\<rparr>,
                     \<lparr>item_track = Some track_gu\<rparr>]
      else Resolved [])"

definition hits3 :: "string \<Rightarrow> nat \<Rightarrow> playlist_item list upstream" where
  "hits3 playlistId limit =
     (if playlistId = playlists_hindi then Rejected
      else Resolved [\<lparr>item_track = Some track1\<rparr>])"

section \<open>Properties\<close>

subsection \<open>Auxiliary facts\<close>

lemma filter_indexed_nths:
  "filter_indexed p k xs = nths xs {i. p (xs ! i) (k + i)}"
proof (induction xs arbitrary: k)
  case Nil
  show ?case by simp
next
  case (Cons x xs)
  show ?case by (simp add: Cons.IH nths_Cons)
qed

lemma find_replaced:
  "i \<noteq> key d \<Longrightarrow>
     find (\<lambda>x. key x = i) (map (\<lambda>x. if key x = key d then d else x) coll) =
     find (\<lambda>x. key x = i) coll"
  by (induction coll) auto

lemma find_appended:
  "i \<noteq> key d \<Longrightarrow> find (\<lambda>x. key x = i) (coll @ [d]) = find (\<lambda>x. key x = i) coll"
  by (induction coll) auto

lemma findById_write_doc: "findById key (write_doc key d coll) (key d) = Some d"
proof (cases "key d \<in> key ` set coll")
  case True
  then show ?thesis
    by (induction coll) (auto simp: findById_def write_doc_def)
next
  case False
  then show ?thesis
    by (induction coll) (auto simp: findById_def write_doc_def)
qed

lemma findById_write_doc_other:
  "i \<noteq> key d \<Longrightarrow> findById key (write_doc key d coll) i = findById key coll i"
  by (simp add: findById_def write_doc_def find_replaced find_appended)

lemma filter_neq_removeAll: "filter (\<lambda>i. i \<noteq> x) xs = removeAll x xs"
  by (induction xs) auto

lemma count_list_distinct: "distinct xs \<Longrightarrow> count_list xs x \<le> 1"
  by (induction xs) (auto simp: count_list_0_iff)

lemma syncWithSpotify_accepted:
  "syncWithSpotify True clock db this spotifyData =
     Inr (this\<lparr>p_name := (if truthy (sd_name spotifyData) then the (sd_name spotifyData)
                            else p_name this),
               p_description := (if truthy (sd_description spotifyData)
                                 then sd_description spotifyData else p_description this),
               p_spotifyId := (if truthy (sd_id spotifyData) then sd_id spotifyData
                               else p_spotifyId this),
               p_image := (case sd_images spotifyData of
                             None \<Rightarrow> p_image this
                           | Some [] \<Rightarrow> p_image this
                           | Some (first # others) \<Rightarrow>
                               \<lparr>url = url first, height = height first, width = width first\<rparr>),
               updatedAt := clock\<rparr>,
          db\<lparr>playlists := write_doc p_id
             (this\<lparr>p_name := (if truthy (sd_name spotifyData) then the (sd_name spotifyData)
                            else p_name this),
               p_description := (if truthy (sd_description spotifyData)
                                 then sd_description spotifyData else p_description this),
               p_spotifyId := (if truthy (sd_id spotifyData) then sd_id spotifyData
                               else p_spotifyId this),
               p_image := (case sd_images spotifyData of
                             None \<Rightarrow> p_image this
                           | Some [] \<Rightarrow> p_image this
                           | Some (first # others) \<Rightarrow>
                               \<lparr>url = url first, height = height first, width = width first\<rparr>),
               updatedAt := clock\<rparr>) (playlists db)\<rparr>)"
proof (cases "sd_images spotifyData")
  case None
  then show ?thesis
    by (simp add: syncWithSpotify_def save_def pre_save_def Let_def)
next
  case (Some images)
  then show ?thesis
    by (cases images) (simp_all add: syncWithSpotify_def save_def pre_save_def Let_def)
qed

lemma uniquePlaylists_nths:
  "uniquePlaylists lower seen ps =
     nths ps {i. lower (p_name (ps ! i)) \<notin> seen \<and>
                 (\<forall>j<i. lower (p_name (ps ! j)) \<noteq> lower (p_name (ps ! i)))}"
proof (induction ps arbitrary: seen)
  case Nil
  show ?case by simp
next
  case (Cons p ps)
  show ?case
  proof (cases "lower (p_name p) \<in> seen")
    case True
    have "{j. Suc j \<in> {i. lower (p_name ((p # ps) ! i)) \<notin> seen \<and>
                 (\<forall>j<i. lower (p_name ((p # ps) ! j)) \<noteq> lower (p_name ((p # ps) ! i)))}} =
          {i. lower (p_name (ps ! i)) \<notin> seen \<and>
                 (\<forall>j<i. lower (p_name (ps ! j)) \<noteq> lower (p_name (ps ! i)))}"
      using True by (auto simp: less_Suc_eq_0_disj)
    with True show ?thesis
      by (simp add: Cons.IH nths_Cons)
  next
    case False
    have "{j. Suc j \<in> {i. lower (p_name ((p # ps) ! i)) \<notin> seen \<and>
                 (\<forall>j<i. lower (p_name ((p # ps) ! j)) \<noteq> lower (p_name ((p # ps) ! i)))}} =
          {i. lower (p_name (ps ! i)) \<notin> insert (lower (p_name p)) seen \<and>
                 (\<forall>j<i. lower (p_name (ps ! j)) \<noteq> lower (p_name (ps ! i)))}"
      by (auto simp: less_Suc_eq_0_disj)
    with False show ?thesis
      by (simp add: Cons.IH nths_Cons)
  qed
qed

lemma uniquePlaylists_names:
  "lower ` p_name ` set (uniquePlaylists lower seen ps) = lower ` p_name ` set ps - seen"
  by (induction ps arbitrary: seen) auto

lemma uniquePlaylists_distinct:
  "distinct (map (\<lambda>p. lower (p_name p)) (uniquePlaylists lower seen ps))"
proof (induction ps arbitrary: seen)
  case Nil
  show ?case by simp
next
  case (Cons p ps)
  have "lower (p_name p) \<notin>
      lower ` p_name ` set (uniquePlaylists lower (insert (lower (p_name p)) seen) ps)"
    by (simp add: uniquePlaylists_names)
  then show ?case
    by (auto simp: Cons.IH image_iff)
qed

lemma findById_key: "findById key coll i = Some d \<Longrightarrow> key d = i"
  by (auto simp: findById_def find_Some_iff)

lemma find_conflict: "p \<in> set ps \<Longrightarrow> P p \<Longrightarrow> \<exists>q. find P ps = Some q"
  by (cases "find P ps") (auto simp: find_None_iff)

lemma populate_snoc:
  "findById key coll r = Some d \<Longrightarrow> populate key coll (refs @ [r]) = populate key coll refs @ [d]"
  by (simp add: populate_def List.map_filter_def)

lemma create_playlist_conflict:
  assumes "truthy name"
    and "findById u_id (users db) userId = Some user"
    and "p \<in> set (populate p_id (playlists db) (u_playlists user))"
    and "toLowerCase rt (p_name p) = toLowerCase rt (the name)"
  shows "create_playlist rt db userId name description =
     ((400, ErrorMessage ''A playlist with this name already exists''), db)"
proof -
  from find_conflict [where P = "\<lambda>p. toLowerCase rt (p_name p) = toLowerCase rt (the name)",
      OF assms(3)] assms(4)
  obtain q where
    "find (\<lambda>p. toLowerCase rt (p_name p) = toLowerCase rt (the name))
       (populate p_id (playlists db) (u_playlists user)) = Some q"
    by blast
  with assms(1,2) show ?thesis
    by (simp add: create_playlist_def)
qed

lemma create_playlist_created:
  assumes "truthy name"
    and "findById u_id (users db) userId = Some user"
    and "\<forall>p \<in> set (populate p_id (playlists db) (u_playlists user)).
           toLowerCase rt (p_name p) \<noteq> toLowerCase rt (the name)"
    and "write_ok rt 0" and "write_ok rt 1"
  shows "\<exists>created db'. create_playlist rt db userId name description =
       ((201, PlaylistBody \<lparr>pv_id = newObjectId rt, pv_name = the name,
                pv_description = Some (or_empty description), pv_songs = [],
                pv_image = no_image, pv_createdAt = now rt, pv_updatedAt = now rt\<rparr>), db') \<and>
     created = \<lparr>p_id = newObjectId rt, p_name = the name,
                p_description = Some (or_empty description), p_spotifyId = None,
                p_user = userId, p_songs = [], p_image = no_image, createdAt = now rt,
                updatedAt = now rt\<rparr> \<and>
     findById p_id (playlists db') (newObjectId rt) = Some created \<and>
     findById u_id (users db') userId =
       Some (user\<lparr>u_playlists := u_playlists user @ [newObjectId rt]\<rparr>) \<and>
     songs db' = songs db"
proof -
  define created where "created = \<lparr>p_id = newObjectId rt, p_name = the name,
                p_description = Some (or_empty description), p_spotifyId = None,
                p_user = userId, p_songs = [], p_image = no_image, createdAt = now rt,
                updatedAt = now rt\<rparr>"
  define user' where "user' = user\<lparr>u_playlists := u_playlists user @ [newObjectId rt]\<rparr>"
  define db' where "db' = db\<lparr>playlists := write_doc p_id created (playlists db),
                            users := write_doc u_id user' (users db)\<rparr>"
  have none: "find (\<lambda>p. toLowerCase rt (p_name p) = toLowerCase rt (the name))
       (populate p_id (playlists db) (u_playlists user)) = None"
    using assms(3) by (auto simp: find_None_iff)
  have run: "create_playlist rt db userId name description =
       ((201, PlaylistBody \<lparr>pv_id = newObjectId rt, pv_name = the name,
                pv_description = Some (or_empty description), pv_songs = [],
                pv_image = no_image, pv_createdAt = now rt, pv_updatedAt = now rt\<rparr>), db')"
    using assms(1,2,4,5) none
    by (simp add: create_playlist_def save_def pre_save_def created_def user'_def db'_def)
  have uid: "u_id user' = userId"
    using findById_key [OF assms(2)] by (simp add: user'_def)
  have p: "findById p_id (playlists db') (newObjectId rt) = Some created"
    using findById_write_doc [of p_id created "playlists db"] by (simp add: db'_def created_def)
  have u: "findById u_id (users db') userId = Some user'"
    using findById_write_doc [of u_id user' "users db"] by (simp add: db'_def uid)
  have s: "songs db' = songs db"
    by (simp add: db'_def)
  show ?thesis
    using run p u s unfolding created_def [symmetric] user'_def [symmetric]
    by (intro exI [of _ created] exI [of _ db']) simp
qed

lemma create_playlist_again:
  assumes "findById p_id (playlists db') i = Some created"
    and "findById u_id (users db') userId = Some (user\<lparr>u_playlists := refs @ [i]\<rparr>)"
    and "truthy name'"
    and "toLowerCase rt' (p_name created) = toLowerCase rt' (the name')"
  shows "create_playlist rt' db' userId name' description' =
     ((400, ErrorMessage ''A playlist with this name already exists''), db')"
proof -
  have "populate p_id (playlists db') (u_playlists (user\<lparr>u_playlists := refs @ [i]\<rparr>)) =
      populate p_id (playlists db') refs @ [created]"
    using populate_snoc [OF assms(1)] by simp
  then have "created \<in> set (populate p_id (playlists db')
      (u_playlists (user\<lparr>u_playlists := refs @ [i]\<rparr>)))"
    by simp
  from create_playlist_conflict [OF assms(3) assms(2) this assms(4)] show ?thesis .
qed

lemma collect_top_tracks_concat:
  "collect_top_tracks api artists allTracks =
     allTracks @ concat (map (\<lambda>artist. case api (a_id artist) of
                                 Rejected \<Rightarrow> []
                               | Resolved None \<Rightarrow> []
                               | Resolved (Some tracks) \<Rightarrow>
                                   map (tag artist) (take (a_count artist) tracks)) artists)"
  by (induction artists arbitrary: allTracks) (auto split: upstream.splits option.splits)

lemma collect_top_tracks_drop_rejected:
  "collect_top_tracks api artists allTracks =
     collect_top_tracks api (filter (\<lambda>artist. api (a_id artist) \<noteq> Rejected) artists) allTracks"
  by (induction artists arbitrary: allTracks) (auto split: upstream.splits option.splits)

lemma collected_tagged:
  "tagged \<in> set (collect_top_tracks api artists []) \<Longrightarrow>
     \<exists>artist tracks track. artist \<in> set artists \<and> api (a_id artist) = Resolved (Some tracks) \<and>
        track \<in> set (take (a_count artist) tracks) \<and> tagged = tag artist track"
proof -
  assume "tagged \<in> set (collect_top_tracks api artists [])"
  then obtain artist where artist: "artist \<in> set artists"
    and "tagged \<in> set (case api (a_id artist) of
                           Rejected \<Rightarrow> []
                         | Resolved None \<Rightarrow> []
                         | Resolved (Some tracks) \<Rightarrow>
                             map (tag artist) (take (a_count artist) tracks))"
    by (auto simp: collect_top_tracks_concat)
  then obtain tracks track where "api (a_id artist) = Resolved (Some tracks)"
    and "track \<in> set (take (a_count artist) tracks)" and "tagged = tag artist track"
    by (cases "api (a_id artist)") (auto split: option.splits)
  with artist show ?thesis by blast
qed

lemma mixed_song_tagged:
  assumes "s \<in> set (map mixed_song_of (collect_top_tracks api artists []))"
  shows "\<exists>artist tracks track. artist \<in> set artists \<and> api (a_id artist) = Resolved (Some tracks) \<and>
        track \<in> set (take (a_count artist) tracks) \<and> s = mixed_song_of (tag artist track) \<and>
        ms_primary_artist s = a_name artist \<and> ms_language s = a_language artist"
proof -
  from assms obtain tagged where "tagged \<in> set (collect_top_tracks api artists [])"
    and s: "s = mixed_song_of tagged"
    by auto
  from collected_tagged [OF this(1)] obtain artist tracks track where
    "artist \<in> set artists" "api (a_id artist) = Resolved (Some tracks)"
    "track \<in> set (take (a_count artist) tracks)" "tagged = tag artist track"
    by blast
  moreover from this(4) s have "ms_primary_artist s = a_name artist"
    "ms_language s = a_language artist"
    by (simp_all add: mixed_song_of_def tag_def)
  ultimately show ?thesis using s by blast
qed

lemma those_member: "those xs = Some ys \<Longrightarrow> y \<in> set ys \<Longrightarrow> Some y \<in> set xs"
  by (induction xs arbitrary: ys) (auto split: option.splits)

lemma map_filter_member:
  "y \<in> set (List.map_filter f xs) \<Longrightarrow> \<exists>x \<in> set xs. f x = Some y"
  by (auto simp: List.map_filter_def)

lemma take_1_filter:
  "take (Suc 0) (filter P xs) = (case find P xs of None \<Rightarrow> [] | Some x \<Rightarrow> [x])"
  by (induction xs) auto

lemma populate_concat:
  "populate key coll refs =
     concat (map (\<lambda>r. take 1 (filter (\<lambda>d. key d = r) coll)) refs)"
  by (induction refs)
     (simp_all add: populate_def List.map_filter_simps findById_def take_1_filter
        split: option.splits)

lemma has_devanagari_iff:
  "has_devanagari s \<longleftrightarrow>
     (\<exists>pre a b c post. s = pre @ [a, b, c] @ post \<and> of_char a = (224::nat) \<and>
        of_char b = (164::nat) \<and> (133::nat) \<le> of_char c \<and> of_char c \<le> (185::nat))"
proof
  show "has_devanagari s \<Longrightarrow>
     \<exists>pre a b c post. s = pre @ [a, b, c] @ post \<and> of_char a = (224::nat) \<and>
        of_char b = (164::nat) \<and> (133::nat) \<le> of_char c \<and> of_char c \<le> (185::nat)"
  proof (induction s rule: has_devanagari.induct)
    case (1 a b c rest)
    show ?case
    proof (cases "of_char a = (224::nat) \<and> of_char b = (164::nat) \<and>
        (133::nat) \<le> of_char c \<and> of_char c \<le> (185::nat)")
      case True
      then have "a # b # c # rest = [] @ [a, b, c] @ rest \<and> of_char a = (224::nat) \<and>
        of_char b = (164::nat) \<and> (133::nat) \<le> of_char c \<and> of_char c \<le> (185::nat)"
        by simp
      then show ?thesis by blast
    next
      case False
      with "1.prems" have "has_devanagari (b # c # rest)" by simp
      from "1.IH" [OF this] obtain pre a' b' c' post where
        "b # c # rest = pre @ [a', b', c'] @ post" "of_char a' = (224::nat)"
        "of_char b' = (164::nat)" "(133::nat) \<le> of_char c'" "of_char c' \<le> (185::nat)"
        by blast
      then have "a # b # c # rest = (a # pre) @ [a', b', c'] @ post \<and> of_char a' = (224::nat) \<and>
        of_char b' = (164::nat) \<and> (133::nat) \<le> of_char c' \<and> of_char c' \<le> (185::nat)"
        by simp
      then show ?thesis by blast
    qed
  qed simp_all
next
  assume "\<exists>pre a b c post. s = pre @ [a, b, c] @ post \<and> of_char a = (224::nat) \<and>
        of_char b = (164::nat) \<and> (133::nat) \<le> of_char c \<and> of_char c \<le> (185::nat)"
  then obtain pre a b c post where s: "s = pre @ [a, b, c] @ post"
    and m: "of_char a = (224::nat)" "of_char b = (164::nat)" "(133::nat) \<le> of_char c"
      "of_char c \<le> (185::nat)"
    by blast
  have "has_devanagari (pre @ [a, b, c] @ post)"
  proof (induction pre)
    case Nil
    show ?case using m by simp
  next
    case (Cons x pre)
    obtain y z rest where "pre @ [a, b, c] @ post = y # z # rest"
      by (cases pre; cases "tl pre") auto
    with Cons show ?case by simp
  qed
  with s show "has_devanagari s" by simp
qed

lemma has_gurmukhi_iff:
  "has_gurmukhi s \<longleftrightarrow>
     (\<exists>pre a b c post. s = pre @ [a, b, c] @ post \<and> of_char a = (224::nat) \<and>
        ((of_char b = (168::nat) \<and> (129::nat) \<le> of_char c \<and> of_char c \<le> (191::nat)) \<or>
         (of_char b = (169::nat) \<and> (128::nat) \<le> of_char c \<and> of_char c \<le> (180::nat))))"
proof
  show "has_gurmukhi s \<Longrightarrow>
     \<exists>pre a b c post. s = pre @ [a, b, c] @ post \<and> of_char a = (224::nat) \<and>
        ((of_char b = (168::nat) \<and> (129::nat) \<le> of_char c \<and> of_char c \<le> (191::nat)) \<or>
         (of_char b = (169::nat) \<and> (128::nat) \<le> of_char c \<and> of_char c \<le> (180::nat)))"
  proof (induction s rule: has_gurmukhi.induct)
    case (1 a b c rest)
    show ?case
    proof (cases "of_char a = (224::nat) \<and>
        ((of_char b = (168::nat) \<and> (129::nat) \<le> of_char c \<and> of_char c \<le> (191::nat)) \<or>
         (of_char b = (169::nat) \<and> (128::nat) \<le> of_char c \<and> of_char c \<le> (180::nat)))")
      case True
      then have "a # b # c # rest = [] @ [a, b, c] @ rest \<and> of_char a = (224::nat) \<and>
        ((of_char b = (168::nat) \<and> (129::nat) \<le> of_char c \<and> of_char c \<le> (191::nat)) \<or>
         (of_char b = (169::nat) \<and> (128::nat) \<le> of_char c \<and> of_char c \<le> (180::nat)))"
        by simp
      then show ?thesis by blast
    next
      case False
      with "1.prems" have "has_gurmukhi (b # c # rest)" by auto
      from "1.IH" [OF this] obtain pre a' b' c' post where
        "b # c # rest = pre @ [a', b', c'] @ post" "of_char a' = (224::nat)"
        "(of_char b' = (168::nat) \<and> (129::nat) \<le> of_char c' \<and> of_char c' \<le> (191::nat)) \<or>
         (of_char b' = (169::nat) \<and> (128::nat) \<le> of_char c' \<and> of_char c' \<le> (180::nat))"
        by blast
      then have "a # b # c # rest = (a # pre) @ [a', b', c'] @ post \<and> of_char a' = (224::nat) \<and>
        ((of_char b' = (168::nat) \<and> (129::nat) \<le> of_char c' \<and> of_char c' \<le> (191::nat)) \<or>
         (of_char b' = (169::nat) \<and> (128::nat) \<le> of_char c' \<and> of_char c' \<le> (180::nat)))"
        by simp
      then show ?thesis by blast
    qed
  qed simp_all
next
  assume "\<exists>pre a b c post. s = pre @ [a, b, c] @ post \<and> of_char a = (224::nat) \<and>
        ((of_char b = (168::nat) \<and> (129::nat) \<le> of_char c \<and> of_char c \<le> (191::nat)) \<or>
         (of_char b = (169::nat) \<and> (128::nat) \<le> of_char c \<and> of_char c \<le> (180::nat)))"
  then obtain pre a b c post where s: "s = pre @ [a, b, c] @ post"
    and m: "of_char a = (224::nat)"
      "(of_char b = (168::nat) \<and> (129::nat) \<le> of_char c \<and> of_char c \<le> (191::nat)) \<or>
       (of_char b = (169::nat) \<and> (128::nat) \<le> of_char c \<and> of_char c \<le> (180::nat))"
    by blast
  have "has_gurmukhi (pre @ [a, b, c] @ post)"
  proof (induction pre)
    case Nil
    show ?case using m by simp
  next
    case (Cons x pre)
    obtain y z rest where "pre @ [a, b, c] @ post = y # z # rest"
      by (cases pre; cases "tl pre") auto
    with Cons show ?case by simp
  qed
  with s show "has_gurmukhi s" by simp
qed

lemma hit_language_explicit:
  "hit_language album name =
     (if (\<exists>markets. al_available_markets album = Some markets \<and> ''IN'' \<in> set markets) \<and>
         has_devanagari name then ''hindi''
      else if (\<exists>markets. al_available_markets album = Some markets \<and> ''IN'' \<in> set markets) \<and>
         has_gurmukhi name then ''punjabi''
      else ''english'')"
  by (cases "al_available_markets album") (simp_all add: hit_language_def)

lemma hit_song_language:
  assumes "hit_song_of track = Some s"
  shows "\<exists>album. t_album track = Some album \<and> hs_id s = t_id track \<and>
       hs_name s = t_name track \<and>
       hs_language s =
         (if (\<exists>markets. al_available_markets album = Some markets \<and> ''IN'' \<in> set markets) \<and>
              (\<exists>pre a b c post. t_name track = pre @ [a, b, c] @ post \<and>
                 of_char a = (224::nat) \<and> of_char b = (164::nat) \<and>
                 (133::nat) \<le> of_char c \<and> of_char c \<le> (185::nat))
          then ''hindi''
          else if (\<exists>markets. al_available_markets album = Some markets \<and> ''IN'' \<in> set markets) \<and>
              (\<exists>pre a b c post. t_name track = pre @ [a, b, c] @ post \<and>
                 of_char a = (224::nat) \<and>
                 ((of_char b = (168::nat) \<and> (129::nat) \<le> of_char c \<and>
                   of_char c \<le> (191::nat)) \<or>
                  (of_char b = (169::nat) \<and> (128::nat) \<le> of_char c \<and>
                   of_char c \<le> (180::nat))))
          then ''punjabi'' else ''english'')"
proof -
  from assms obtain album where album: "t_album track = Some album"
    and "hs_id s = t_id track" and "hs_name s = t_name track"
    and "hs_language s = hit_language album (t_name track)"
    by (auto simp: hit_song_of_def split: option.splits)
  then show ?thesis
    unfolding hit_language_explicit has_devanagari_iff has_gurmukhi_iff by blast
qed

lemma mixed_hits_sent:
  assumes "mixed_hits hits_api hits_shuffle = (200, HitSongs sent)"
  shows "\<exists>english punjabi hindi every.
     hits_api playlists_english 20 = Resolved english \<and>
     hits_api playlists_punjabi 15 = Resolved punjabi \<and>
     hits_api playlists_hindi 15 = Resolved hindi \<and>
     those (map hit_song_of
              (hits_shuffle (List.map_filter item_track (english @ punjabi @ hindi)))) = Some every \<and>
     sent = take 50 every"
  using assms by (auto simp: mixed_hits_def split: upstream.splits option.splits)

text \<open>
  The song references of a playlist stay free of repetitions, so that a playlist holds
  a song at most once (\<open>count_list_distinct\<close>): a new playlist has no reference,
  \<open>addSong\<close> and \<open>removeSong\<close> keep the references free of repetitions, and
  \<open>syncWithSpotify\<close> does not touch them.
\<close>

lemma addSong_keeps_distinct:
  "distinct (p_songs this) \<Longrightarrow> addSong accepted clock db this songId = Inr (after, db') \<Longrightarrow>
     distinct (p_songs after)"
  by (auto simp: addSong_def save_def pre_save_def split: if_splits)

lemma removeSong_keeps_distinct:
  "distinct (p_songs this) \<Longrightarrow> removeSong accepted clock db this songId = Inr (after, db') \<Longrightarrow>
     distinct (p_songs after)"
  by (auto simp: removeSong_def save_def pre_save_def split: if_splits)

subsection \<open>Mood filter\<close>

text \<open>
  C1 (as amended). For every track list and every mood that is one of the four
  configured labels, when the audio-features request resolves with its array,
  \<open>filterTracksByMood\<close> keeps exactly the tracks at the positions whose entry of the
  array is there and has each of valence, energy and danceability inside the closed
  interval the mood's profile gives for it, both bounds included; a track whose entry
  is \<^verbatim>\<open>null\<close> or missing is dropped. When the request is rejected, all tracks
  are kept.
\<close>

theorem filterTracksByMood_keeps_in_range:
  assumes "mood \<in> {''happy'', ''neutral'', ''angry'', ''sad''}"
  shows "\<exists>mp. moodProfiles mood = Some mp \<and>
     (\<forall>audio_features.
        audio_features_api (join '','' (map t_id tracks)) = Resolved (Some audio_features) \<longrightarrow>
        filterTracksByMood audio_features_api tracks mood =
          nths tracks {i. \<exists>f. i < length audio_features \<and> audio_features ! i = Some f \<and>
                     fst (mp_valence mp) \<le> valence f \<and> valence f \<le> snd (mp_valence mp) \<and>
                     fst (mp_energy mp) \<le> energy f \<and> energy f \<le> snd (mp_energy mp) \<and>
                     fst (mp_danceability mp) \<le> danceability f \<and>
                     danceability f \<le> snd (mp_danceability mp)}) \<and>
     (audio_features_api (join '','' (map t_id tracks)) = Rejected \<longrightarrow>
        filterTracksByMood audio_features_api tracks mood = tracks)"
proof -
  from assms obtain mp where mp: "moodProfiles mood = Some mp"
    by (auto simp: moodProfiles_def)
  have resolved: "filterTracksByMood audio_features_api tracks mood =
          nths tracks {i. \<exists>f. i < length audio_features \<and> audio_features ! i = Some f \<and>
                     fst (mp_valence mp) \<le> valence f \<and> valence f \<le> snd (mp_valence mp) \<and>
                     fst (mp_energy mp) \<le> energy f \<and> energy f \<le> snd (mp_energy mp) \<and>
                     fst (mp_danceability mp) \<le> danceability f \<and>
                     danceability f \<le> snd (mp_danceability mp)}"
    if answer: "audio_features_api (join '','' (map t_id tracks)) = Resolved (Some audio_features)"
    for audio_features
  proof -
    have "filterTracksByMood audio_features_api tracks mood =
        filter_indexed (\<lambda>track index. within_profile mp
           (case at_index audio_features index of None \<Rightarrow> None | Some entry \<Rightarrow> entry)) 0 tracks"
      by (simp add: filterTracksByMood_def mp answer)
    also have "\<dots> = nths tracks {i. within_profile mp
           (case at_index audio_features i of None \<Rightarrow> None | Some entry \<Rightarrow> entry)}"
      by (simp add: filter_indexed_nths)
    also have "{i. within_profile mp
           (case at_index audio_features i of None \<Rightarrow> None | Some entry \<Rightarrow> entry)} =
        {i. \<exists>f. i < length audio_features \<and> audio_features ! i = Some f \<and>
                     fst (mp_valence mp) \<le> valence f \<and> valence f \<le> snd (mp_valence mp) \<and>
                     fst (mp_energy mp) \<le> energy f \<and> energy f \<le> snd (mp_energy mp) \<and>
                     fst (mp_danceability mp) \<le> danceability f \<and>
                     danceability f \<le> snd (mp_danceability mp)}"
      by (auto simp: within_profile_def at_index_def split: option.splits)
    finally show ?thesis .
  qed
  have rejected: "filterTracksByMood audio_features_api tracks mood = tracks"
    if "audio_features_api (join '','' (map t_id tracks)) = Rejected"
    using that by (simp add: filterTracksByMood_def mp)
  from mp resolved rejected show ?thesis
    by blast
qed

text \<open>
  The theorem at a request for \<open>happy\<close> with three tracks: the first has features on
  the lower bounds, the second has no entry (\<^verbatim>\<open>null\<close>), the third is too low in
  energy. Only the first is kept.
\<close>

theorem filterTracksByMood_keeps_in_range_witness:
  "filterTracksByMood
     (\<lambda>ids. Resolved (Some [Some \<lparr>valence = 0.6, energy = 0.5, danceability = 1\<rparr>, None,
                             Some \<lparr>valence = 0.7, energy = 0.4, danceability = 0.9\<rparr>]))
     [track1, track1\<lparr>t_id := ''sp2''\<rparr>, track1\<lparr>t_id := ''sp3''\<rparr>] ''happy'' = [track1]"
proof -
  have "''happy'' \<in> {''happy'', ''neutral'', ''angry'', ''sad''}" by simp
  from filterTracksByMood_keeps_in_range [OF this, of
      "\<lambda>ids. Resolved (Some [Some \<lparr>valence = 0.6, energy = 0.5, danceability = 1\<rparr>, None,
                             Some \<lparr>valence = 0.7, energy = 0.4, danceability = 0.9\<rparr>])"
      "[track1, track1\<lparr>t_id := ''sp2''\<rparr>, track1\<lparr>t_id := ''sp3''\<rparr>]"]
  show ?thesis
    by (simp add: moodProfiles_def nths_Cons less_Suc_eq_0_disj)
qed

text \<open>
  C1 as it is stated fails when the audio-features request is rejected: no feature
  triple is available for the track, and the track is kept, since the function falls
  back to the unfiltered tracks.
\<close>

theorem filterTracksByMood_fails_open_counterexample:
  "filterTracksByMood (\<lambda>ids. Rejected) [track1] ''happy'' = [track1]"
  by (simp add: filterTracksByMood_def moodProfiles_def)

subsection \<open>Playlist methods\<close>

text \<open>
  C4 (as amended). For every playlist, when the store accepts the save,
  \<open>removeSong\<close> succeeds, removes every reference equal to the song id, keeps the
  other references in their order, sets the update timestamp to the clock and stores
  the playlist so. When the song is not in the playlist, the references and every
  other field but the update timestamp are left as they were; the update timestamp is
  still refreshed.
\<close>

theorem removeSong_removes_all:
  "\<exists>after db'. removeSong True clock db this songId = Inr (after, db') \<and>
     p_songs after = removeAll songId (p_songs this) \<and>
     songId \<notin> set (p_songs after) \<and>
     updatedAt after = clock \<and>
     after = this\<lparr>p_songs := p_songs after, updatedAt := clock\<rparr> \<and>
     findById p_id (playlists db') (p_id this) = Some after \<and>
     users db' = users db \<and> songs db' = songs db \<and>
     (songId \<notin> set (p_songs this) \<longrightarrow> after = this\<lparr>updatedAt := clock\<rparr>)"
proof -
  let ?after = "this\<lparr>p_songs := removeAll songId (p_songs this), updatedAt := clock\<rparr>"
  let ?db' = "db\<lparr>playlists := write_doc p_id ?after (playlists db)\<rparr>"
  have run: "removeSong True clock db this songId = Inr (?after, ?db')"
    by (simp add: removeSong_def save_def pre_save_def filter_neq_removeAll)
  have stored: "findById p_id (playlists ?db') (p_id this) = Some ?after"
    using findById_write_doc [of p_id ?after "playlists db"] by simp
  have absent: "songId \<notin> set (p_songs this) \<longrightarrow> ?after = this\<lparr>updatedAt := clock\<rparr>"
    by simp
  show ?thesis
    using run stored absent by (intro exI [of _ ?after] exI [of _ ?db']) simp
qed

text \<open>The theorem at a playlist with two songs, for a song that is not among them.\<close>

theorem removeSong_removes_all_witness:
  "''s9'' \<notin> set (p_songs playlist1) \<and>
   (\<exists>after db'. removeSong True 7 store1 playlist1 ''s9'' = Inr (after, db') \<and>
       after = playlist1\<lparr>updatedAt := 7\<rparr>)"
  using removeSong_removes_all [of 7 store1 playlist1 "''s9''"]
  by (auto simp: playlist1_def)

text \<open>
  C4 as it is stated fails in its last part: removing a song that is not in the
  playlist does not leave the playlist unchanged, since the save refreshes the update
  timestamp (here from 2 to 7).
\<close>

theorem removeSong_absent_counterexample:
  "''s9'' \<notin> set (p_songs playlist1) \<and>
   (\<exists>after db'. removeSong True 7 store1 playlist1 ''s9'' = Inr (after, db') \<and>
      updatedAt playlist1 = 2 \<and> updatedAt after = 7 \<and> after \<noteq> playlist1)"
  by (simp add: removeSong_def save_def pre_save_def playlist1_def)

text \<open>
  C6. \<open>addSong\<close> with a song that is already referenced succeeds and changes nothing,
  neither the playlist nor the store and whatever the store would answer to a write.
  With a song that is not referenced, and a store that accepts the save, it appends
  the reference, sets the update timestamp to the clock and stores the playlist so.
  Hence on a playlist that holds the song at most once, adding the same song twice
  gives a playlist with exactly one reference to it, and the second call changes
  nothing.
\<close>

theorem addSong_idempotent:
  "(songId \<in> set (p_songs this) \<longrightarrow> addSong accepted clock db this songId = Inr (this, db)) \<and>
   (songId \<notin> set (p_songs this) \<longrightarrow>
      (\<exists>after db'. addSong True clock db this songId = Inr (after, db') \<and>
         after = this\<lparr>p_songs := p_songs this @ [songId], updatedAt := clock\<rparr> \<and>
         findById p_id (playlists db') (p_id this) = Some after \<and>
         users db' = users db \<and> songs db' = songs db)) \<and>
   (count_list (p_songs this) songId \<le> 1 \<longrightarrow>
      (\<exists>once db1. addSong True clock db this songId = Inr (once, db1) \<and>
         addSong accepted' clock' db1 once songId = Inr (once, db1) \<and>
         count_list (p_songs once) songId = 1))"
proof (intro conjI impI)
  assume "songId \<in> set (p_songs this)"
  then show "addSong accepted clock db this songId = Inr (this, db)"
    by (simp add: addSong_def)
next
  assume absent: "songId \<notin> set (p_songs this)"
  let ?after = "this\<lparr>p_songs := p_songs this @ [songId], updatedAt := clock\<rparr>"
  let ?db' = "db\<lparr>playlists := write_doc p_id ?after (playlists db)\<rparr>"
  have "addSong True clock db this songId = Inr (?after, ?db')"
    using absent by (simp add: addSong_def save_def pre_save_def)
  moreover have "findById p_id (playlists ?db') (p_id this) = Some ?after"
    using findById_write_doc [of p_id ?after "playlists db"] by simp
  ultimately show "\<exists>after db'. addSong True clock db this songId = Inr (after, db') \<and>
         after = this\<lparr>p_songs := p_songs this @ [songId], updatedAt := clock\<rparr> \<and>
         findById p_id (playlists db') (p_id this) = Some after \<and>
         users db' = users db \<and> songs db' = songs db"
    by (intro exI [of _ ?after] exI [of _ ?db']) simp
next
  assume d: "count_list (p_songs this) songId \<le> 1"
  show "\<exists>once db1. addSong True clock db this songId = Inr (once, db1) \<and>
         addSong accepted' clock' db1 once songId = Inr (once, db1) \<and>
         count_list (p_songs once) songId = 1"
  proof (cases "songId \<in> set (p_songs this)")
    case True
    then have "count_list (p_songs this) songId \<noteq> 0"
      by (simp add: count_list_0_iff)
    with d have "count_list (p_songs this) songId = 1"
      by simp
    with True show ?thesis
      by (simp add: addSong_def)
  next
    case False
    then have "count_list (p_songs this) songId = 0"
      by (simp add: count_list_0_iff)
    then have "count_list (p_songs this @ [songId]) songId = 1"
      by simp
    then show ?thesis
      using False by (simp add: addSong_def save_def pre_save_def)
  qed
qed

text \<open>
  The theorem at a playlist with the songs s1 and s2: adding s1 again changes nothing,
  even with a store that would refuse a write; adding s3 appends it, and adding s3
  once more changes nothing and leaves one reference to s3.
\<close>

theorem addSong_idempotent_witness:
  "count_list (p_songs playlist1) ''s3'' \<le> 1 \<and> ''s1'' \<in> set (p_songs playlist1) \<and>
   ''s3'' \<notin> set (p_songs playlist1) \<and>
   addSong False 7 store1 playlist1 ''s1'' = Inr (playlist1, store1) \<and>
   (\<exists>once db1. addSong True 7 store1 playlist1 ''s3'' = Inr (once, db1) \<and>
       p_songs once = [''s1'', ''s2'', ''s3''] \<and> updatedAt once = 7 \<and>
       addSong True 8 db1 once ''s3'' = Inr (once, db1) \<and>
       count_list (p_songs once) ''s3'' = 1)"
  using addSong_idempotent [of "''s1''" playlist1 False 7 store1 True 8]
    addSong_idempotent [of "''s3''" playlist1 False 7 store1 True 8]
  by (auto simp: playlist1_def)

text \<open>
  C9 (as amended). When the store accepts the save, \<open>syncWithSpotify\<close> succeeds and
  changes the name, the description, the external id and the cover image only when
  the payload has the field (for the image: a first image): a field that the payload
  lacks keeps its value, and a field that changed holds the payload's value. The
  owner, the song references, the identifier and the creation timestamp are never
  changed. The update timestamp is set to the clock by the save.
\<close>

theorem syncWithSpotify_merges:
  "\<exists>after db'. syncWithSpotify True clock db this spotifyData = Inr (after, db') \<and>
     (sd_name spotifyData = None \<longrightarrow> p_name after = p_name this) \<and>
     (p_name after \<noteq> p_name this \<longrightarrow> sd_name spotifyData = Some (p_name after)) \<and>
     (sd_description spotifyData = None \<longrightarrow> p_description after = p_description this) \<and>
     (p_description after \<noteq> p_description this \<longrightarrow>
        sd_description spotifyData = p_description after) \<and>
     (sd_images spotifyData = None \<longrightarrow> p_image after = p_image this) \<and>
     (p_image after \<noteq> p_image this \<longrightarrow>
        (\<exists>first others. sd_images spotifyData = Some (first # others) \<and>
           p_image after = \<lparr>url = url first, height = height first, width = width first\<rparr>)) \<and>
     (sd_id spotifyData = None \<longrightarrow> p_spotifyId after = p_spotifyId this) \<and>
     (p_spotifyId after \<noteq> p_spotifyId this \<longrightarrow> sd_id spotifyData = p_spotifyId after) \<and>
     p_id after = p_id this \<and> p_user after = p_user this \<and> p_songs after = p_songs this \<and>
     createdAt after = createdAt this \<and> updatedAt after = clock \<and>
     findById p_id (playlists db') (p_id this) = Some after \<and>
     users db' = users db \<and> songs db' = songs db"
proof -
  define after where "after =
     this\<lparr>p_name := (if truthy (sd_name spotifyData) then the (sd_name spotifyData)
                            else p_name this),
               p_description := (if truthy (sd_description spotifyData)
                                 then sd_description spotifyData else p_description this),
               p_spotifyId := (if truthy (sd_id spotifyData) then sd_id spotifyData
                               else p_spotifyId this),
               p_image := (case sd_images spotifyData of
                             None \<Rightarrow> p_image this
                           | Some [] \<Rightarrow> p_image this
                           | Some (first # others) \<Rightarrow>
                               \<lparr>url = url first, height = height first, width = width first\<rparr>),
               updatedAt := clock\<rparr>"
  define db' where "db' = db\<lparr>playlists := write_doc p_id after (playlists db)\<rparr>"
  have run: "syncWithSpotify True clock db this spotifyData = Inr (after, db')"
    unfolding after_def db'_def by (rule syncWithSpotify_accepted)
  have id: "p_id after = p_id this"
    by (simp add: after_def)
  have stored: "findById p_id (playlists db') (p_id this) = Some after"
    using findById_write_doc [of p_id after "playlists db"] by (simp add: db'_def id)
  have name: "(sd_name spotifyData = None \<longrightarrow> p_name after = p_name this) \<and>
     (p_name after \<noteq> p_name this \<longrightarrow> sd_name spotifyData = Some (p_name after))"
    by (cases "sd_name spotifyData") (simp_all add: after_def truthy_def)
  have description:
    "(sd_description spotifyData = None \<longrightarrow> p_description after = p_description this) \<and>
     (p_description after \<noteq> p_description this \<longrightarrow>
        sd_description spotifyData = p_description after)"
    by (cases "sd_description spotifyData") (simp_all add: after_def truthy_def)
  have external: "(sd_id spotifyData = None \<longrightarrow> p_spotifyId after = p_spotifyId this) \<and>
     (p_spotifyId after \<noteq> p_spotifyId this \<longrightarrow> sd_id spotifyData = p_spotifyId after)"
    by (cases "sd_id spotifyData") (simp_all add: after_def truthy_def)
  have cover: "(sd_images spotifyData = None \<longrightarrow> p_image after = p_image this) \<and>
     (p_image after \<noteq> p_image this \<longrightarrow>
        (\<exists>first others. sd_images spotifyData = Some (first # others) \<and>
           p_image after = \<lparr>url = url first, height = height first, width = width first\<rparr>))"
  proof (cases "sd_images spotifyData")
    case None
    then show ?thesis by (simp add: after_def)
  next
    case (Some images)
    then show ?thesis by (cases images) (simp_all add: after_def)
  qed
  have frame: "p_user after = p_user this \<and> p_songs after = p_songs this \<and>
     createdAt after = createdAt this \<and> updatedAt after = clock"
    by (simp add: after_def)
  have others: "users db' = users db \<and> songs db' = songs db"
    by (simp add: db'_def)
  show ?thesis
    apply (rule exI [of _ after])
    apply (rule exI [of _ db'])
    apply (insert run id stored name description external cover frame others)
    apply (elim conjE)
    apply (intro conjI)
                    apply assumption+
    done
qed

text \<open>
  The theorem at a payload with a name and an external id, no description and an
  empty list of images: the name and the external id are taken, the rest is kept.
\<close>

theorem syncWithSpotify_merges_witness:
  "\<exists>after db'. syncWithSpotify True 7 store1 playlist1
       \<lparr>sd_name = Some ''Calm'', sd_description = None, sd_id = Some ''ext1'',
        sd_images = Some []\<rparr> = Inr (after, db') \<and>
     after = playlist1\<lparr>p_name := ''Calm'', p_spotifyId := Some ''ext1'', updatedAt := 7\<rparr>"
  using syncWithSpotify_merges [of 7 store1 playlist1
       "\<lparr>sd_name = Some ''Calm'', sd_description = None, sd_id = Some ''ext1'',
        sd_images = Some []\<rparr>"]
  by (simp add: syncWithSpotify_accepted truthy_def)

text \<open>
  C9 as it is stated fails in its last part: a sync changes a field other than name,
  description, external id and image. With a payload that has no field at all, the
  update timestamp goes from 2 to 7.
\<close>

theorem syncWithSpotify_timestamp_counterexample:
  "\<exists>after db'. syncWithSpotify True 7 store1 playlist1
       \<lparr>sd_name = None, sd_description = None, sd_id = None, sd_images = None\<rparr> =
         Inr (after, db') \<and>
     updatedAt playlist1 = 2 \<and> updatedAt after = 7"
  by (simp add: syncWithSpotify_accepted playlist1_def)

subsection \<open>Playlist routes\<close>

text \<open>
  C5 (the code at the failing request). The owner u1 removes the song s1 from the
  playlist p1, which holds s1 and s2. The route stores the playlist without s1, then
  fails while it builds the response (the callback reads \<^verbatim>\<open>savsong\<close>) and answers
  500: an error response after the removal was persisted.
\<close>

theorem remove_song_route_error_after_write:
  "\<exists>db'. remove_song_route runtime1 store1 ''p1'' ''s1'' ''u1'' =
       ((500, ErrorMessage ''Failed to remove song from playlist''), db') \<and>
     findById p_id (playlists store1) ''p1'' = Some playlist1 \<and>
     findById p_id (playlists db') ''p1'' =
       Some (playlist1\<lparr>p_songs := [''s2''], updatedAt := 7\<rparr>) \<and>
     db' \<noteq> store1"
  by (simp add: remove_song_route_def removeSong_def save_def pre_save_def findById_def
      write_doc_def populate_def List.map_filter_def store1_def playlist1_def runtime1_def
      song1_def song2_def)

text \<open>
  C8. For an owner the store knows, \<open>list_playlists\<close> answers 200 with the playlists
  that the owner references: for each reference of the owner, in the stored order of
  the references, the stored playlist with this identifier (none when the reference
  resolves to nothing), and of these the ones that no earlier one equals in
  lower-cased name. So a playlist is shown if and only if it is the first of the
  referenced playlists with its lower-cased name; the names shown are pairwise
  different when lower-cased, every name of a referenced playlist is there in lower
  case, and each playlist is sent with its own identifier and name.
\<close>

theorem list_playlists_first_occurrence:
  assumes "findById u_id (users db) userId = Some user"
  shows "\<exists>referenced shown sent.
     referenced =
       concat (map (\<lambda>r. take 1 (filter (\<lambda>p. p_id p = r) (playlists db))) (u_playlists user)) \<and>
     shown = nths referenced
               {i. \<forall>j<i. toLowerCase rt (p_name (referenced ! j)) \<noteq>
                          toLowerCase rt (p_name (referenced ! i))} \<and>
     list_playlists rt db userId = (200, PlaylistList sent) \<and>
     sent = map (playlist_json db) shown \<and>
     map pv_id sent = map p_id shown \<and> map pv_name sent = map p_name shown \<and>
     distinct (map (\<lambda>p. toLowerCase rt (p_name p)) shown) \<and>
     (\<lambda>p. toLowerCase rt (p_name p)) ` set shown =
       (\<lambda>p. toLowerCase rt (p_name p)) ` set referenced"
proof -
  define referenced where "referenced =
     concat (map (\<lambda>r. take 1 (filter (\<lambda>p. p_id p = r) (playlists db))) (u_playlists user))"
  define shown where "shown = uniquePlaylists (toLowerCase rt) {} referenced"
  have pop: "populate p_id (playlists db) (u_playlists user) = referenced"
    by (simp add: populate_concat referenced_def)
  have reply: "list_playlists rt db userId = (200, PlaylistList (map (playlist_json db) shown))"
    using assms by (simp add: list_playlists_def pop shown_def)
  have first: "shown = nths referenced
               {i. \<forall>j<i. toLowerCase rt (p_name (referenced ! j)) \<noteq>
                          toLowerCase rt (p_name (referenced ! i))}"
    by (simp add: shown_def uniquePlaylists_nths)
  have ids: "map pv_id (map (playlist_json db) shown) = map p_id shown"
    and names: "map pv_name (map (playlist_json db) shown) = map p_name shown"
    by (simp_all add: playlist_json_def)
  have different: "distinct (map (\<lambda>p. toLowerCase rt (p_name p)) shown)"
    unfolding shown_def by (rule uniquePlaylists_distinct)
  have every: "(\<lambda>p. toLowerCase rt (p_name p)) ` set shown =
       (\<lambda>p. toLowerCase rt (p_name p)) ` set referenced"
    using uniquePlaylists_names [of "toLowerCase rt" "{}" referenced]
    by (simp add: image_image shown_def)
  show ?thesis
    apply (rule exI [of _ referenced])
    apply (rule exI [of _ shown])
    apply (rule exI [of _ "map (playlist_json db) shown"])
    apply (insert referenced_def first reply ids names different every)
    apply (intro conjI)
           apply (assumption | rule refl)+
    done
qed

text \<open>
  The theorem at the owner u1, who references the playlists Chill, chill and Work in
  this order, in a store that holds them in the order Work, Gym, chill, Chill, where
  Gym is a playlist of u2: exactly two playlists are shown, Chill (the first seen)
  and Work.
\<close>

theorem list_playlists_first_occurrence_witness:
  "findById u_id (users store3) ''u1'' = Some (user1\<lparr>u_playlists := [''p1'', ''p2'', ''p3'']\<rparr>) \<and>
   map p_id (playlists store3) = [''p3'', ''p0'', ''p2'', ''p1''] \<and>
   map p_name (playlists store3) = [''Work'', ''Gym'', ''chill'', ''Chill''] \<and>
   (\<exists>sent. list_playlists runtime1 store3 ''u1'' = (200, PlaylistList sent) \<and>
      map pv_id sent = [''p1'', ''p3''] \<and> map pv_name sent = [''Chill'', ''Work''])"
proof -
  have found: "findById u_id (users store3) ''u1'' =
      Some (user1\<lparr>u_playlists := [''p1'', ''p2'', ''p3'']\<rparr>)"
    by (simp add: findById_def store3_def user1_def user2_def)
  have stored: "map p_id (playlists store3) = [''p3'', ''p0'', ''p2'', ''p1'']"
      "map p_name (playlists store3) = [''Work'', ''Gym'', ''chill'', ''Chill'']"
    by (simp_all add: store3_def playlist0_def playlist1_def playlist2_def playlist3_def)
  have refs: "concat (map (\<lambda>r. take 1 (filter (\<lambda>p. p_id p = r) (playlists store3)))
        (u_playlists (user1\<lparr>u_playlists := [''p1'', ''p2'', ''p3'']\<rparr>))) =
      [playlist1, playlist2, playlist3]"
    by (simp add: store3_def playlist0_def playlist1_def playlist2_def playlist3_def)
  have names: "p_name playlist1 = ''Chill''" "p_name playlist2 = ''chill''"
      "p_name playlist3 = ''Work''"
    by (simp_all add: playlist1_def playlist2_def playlist3_def)
  have lower: "toLowerCase runtime1 ''Chill'' = ''chill''"
      "toLowerCase runtime1 ''chill'' = ''chill''" "toLowerCase runtime1 ''Work'' = ''work''"
    by code_simp+
  have kept: "nths [playlist1, playlist2, playlist3]
       {i. \<forall>j<i. toLowerCase runtime1 (p_name ([playlist1, playlist2, playlist3] ! j)) \<noteq>
                  toLowerCase runtime1 (p_name ([playlist1, playlist2, playlist3] ! i))} =
     [playlist1, playlist3]"
    by (simp add: nths_Cons names lower less_Suc_eq_0_disj all_conj_distrib ex_disj_distrib)
  from list_playlists_first_occurrence [OF found, of runtime1]
  obtain referenced shown sent where
    "referenced = concat (map (\<lambda>r. take 1 (filter (\<lambda>p. p_id p = r) (playlists store3)))
        (u_playlists (user1\<lparr>u_playlists := [''p1'', ''p2'', ''p3'']\<rparr>)))"
    and "shown = nths referenced
               {i. \<forall>j<i. toLowerCase runtime1 (p_name (referenced ! j)) \<noteq>
                          toLowerCase runtime1 (p_name (referenced ! i))}"
    and reply: "list_playlists runtime1 store3 ''u1'' = (200, PlaylistList sent)"
    and "sent = map (playlist_json store3) shown"
    and sent: "map pv_id sent = map p_id shown" "map pv_name sent = map p_name shown"
    by blast
  then have "shown = [playlist1, playlist3]"
    by (simp only: refs kept)
  with sent have "map pv_id sent = [''p1'', ''p3'']" "map pv_name sent = [''Chill'', ''Work'']"
    by (simp_all add: playlist1_def playlist3_def)
  with reply have "\<exists>sent. list_playlists runtime1 store3 ''u1'' = (200, PlaylistList sent) \<and>
      map pv_id sent = [''p1'', ''p3''] \<and> map pv_name sent = [''Chill'', ''Work'']"
    by (intro exI [of _ sent] conjI)
  with found stored show ?thesis
    by (intro conjI)
qed

text \<open>
  C10 (as amended). Each of the three routes on a playlist looks the playlist up and
  compares its owner with the caller before it changes anything. For a caller who is
  not the owner of an existing playlist, the store is left as it was by every one of
  them; removing a song and playing are answered 403, and adding a song is answered
  403 when the request names a track, and 400 when it names none (that check comes
  first).
\<close>

theorem non_owner_is_refused:
  assumes "findById p_id (playlists db) playlistId = Some playlist"
    and "p_user playlist \<noteq> userId"
  shows "snd (add_song_route rt track_api db playlistId spotifyId userId) = db \<and>
     (truthy spotifyId \<longrightarrow>
        fst (add_song_route rt track_api db playlistId spotifyId userId) =
          (403, ErrorMessage ''Unauthorized: Not your playlist'')) \<and>
     (\<not> truthy spotifyId \<longrightarrow>
        fst (add_song_route rt track_api db playlistId spotifyId userId) =
          (400, ErrorMessage ''Spotify track ID is required'')) \<and>
     remove_song_route rt db playlistId songId userId =
       ((403, ErrorMessage ''Unauthorized: Not your playlist''), db) \<and>
     play_route db playlistId userId = (403, ErrorMessage ''Unauthorized: Not your playlist'')"
  using assms by (simp add: add_song_route_def remove_song_route_def play_route_def)

text \<open>The theorem at the playlist p1 of u1 and the caller u2.\<close>

theorem non_owner_is_refused_witness:
  "findById p_id (playlists store1) ''p1'' = Some playlist1 \<and> p_user playlist1 \<noteq> ''u2'' \<and>
   add_song_route runtime1 (\<lambda>i. Resolved track1) store1 ''p1'' (Some ''sp1'') ''u2'' =
     ((403, ErrorMessage ''Unauthorized: Not your playlist''), store1) \<and>
   remove_song_route runtime1 store1 ''p1'' ''s1'' ''u2'' =
     ((403, ErrorMessage ''Unauthorized: Not your playlist''), store1) \<and>
   play_route store1 ''p1'' ''u2'' = (403, ErrorMessage ''Unauthorized: Not your playlist'')"
proof -
  have found: "findById p_id (playlists store1) ''p1'' = Some playlist1"
    by (simp add: findById_def store1_def playlist1_def)
  have other: "p_user playlist1 \<noteq> ''u2''"
    by (simp add: playlist1_def)
  from non_owner_is_refused [OF found other, of runtime1 "\<lambda>i. Resolved track1" "Some ''sp1''" "''s1''"]
  show ?thesis
    using found other by (simp add: truthy_def prod_eq_iff)
qed

text \<open>
  C10 as it is stated fails for a request to add a song that names no track: the
  caller u2 is not the owner of p1, and the answer is 400, not 403.
\<close>

theorem non_owner_bad_request_counterexample:
  "findById p_id (playlists store1) ''p1'' = Some playlist1 \<and> p_user playlist1 \<noteq> ''u2'' \<and>
   add_song_route runtime1 (\<lambda>i. Resolved track1) store1 ''p1'' None ''u2'' =
     ((400, ErrorMessage ''Spotify track ID is required''), store1)"
  by (simp add: add_song_route_def truthy_def findById_def store1_def playlist1_def)

text \<open>
  C7 (as amended). For an owner the store knows: a request whose name is missing or
  empty is answered 400, the name being required, and stores nothing. For a request
  that gives a name: when one of the owner's playlists has the same lower-cased name,
  \<open>create_playlist\<close> answers 400 with the message that a playlist with this name
  already exists and stores nothing; when none has and the store accepts the two
  writes, it answers 201, stores a new playlist with this name and no songs, and
  appends its reference to the owner's playlists. After that, a second request of the
  owner whose name differs only in case is refused.
\<close>

theorem create_playlist_conflict_or_created:
  assumes "findById u_id (users db) userId = Some user"
  shows "(\<not> truthy name \<longrightarrow>
          create_playlist rt db userId name description =
            ((400, ErrorMessage ''Playlist name is required''), db)) \<and>
     (truthy name \<and>
      (\<exists>p \<in> set (populate p_id (playlists db) (u_playlists user)).
             toLowerCase rt (p_name p) = toLowerCase rt (the name)) \<longrightarrow>
          create_playlist rt db userId name description =
            ((400, ErrorMessage ''A playlist with this name already exists''), db)) \<and>
     (truthy name \<and>
      (\<forall>p \<in> set (populate p_id (playlists db) (u_playlists user)).
             toLowerCase rt (p_name p) \<noteq> toLowerCase rt (the name)) \<and>
        write_ok rt 0 \<and> write_ok rt 1 \<longrightarrow>
          (\<exists>created db'. create_playlist rt db userId name description =
               ((201, PlaylistBody \<lparr>pv_id = newObjectId rt, pv_name = the name,
                   pv_description = Some (or_empty description), pv_songs = [],
                   pv_image = no_image, pv_createdAt = now rt, pv_updatedAt = now rt\<rparr>), db') \<and>
             created = \<lparr>p_id = newObjectId rt, p_name = the name,
                p_description = Some (or_empty description), p_spotifyId = None,
                p_user = userId, p_songs = [], p_image = no_image, createdAt = now rt,
                updatedAt = now rt\<rparr> \<and>
             findById p_id (playlists db') (newObjectId rt) = Some created \<and>
             findById u_id (users db') userId =
               Some (user\<lparr>u_playlists := u_playlists user @ [newObjectId rt]\<rparr>) \<and>
             songs db' = songs db \<and>
             (\<forall>rt' name' description'.
                truthy name' \<and> toLowerCase rt' (the name') = toLowerCase rt' (the name) \<longrightarrow>
                create_playlist rt' db' userId name' description' =
                  ((400, ErrorMessage ''A playlist with this name already exists''), db'))))"
proof (intro conjI impI)
  assume "\<not> truthy name"
  then show "create_playlist rt db userId name description =
            ((400, ErrorMessage ''Playlist name is required''), db)"
    by (simp add: create_playlist_def)
next
  assume "truthy name \<and>
      (\<exists>p \<in> set (populate p_id (playlists db) (u_playlists user)).
             toLowerCase rt (p_name p) = toLowerCase rt (the name))"
  then obtain p where given: "truthy name"
    and "p \<in> set (populate p_id (playlists db) (u_playlists user))"
    and "toLowerCase rt (p_name p) = toLowerCase rt (the name)"
    by blast
  from create_playlist_conflict [OF given assms this(2,3)]
  show "create_playlist rt db userId name description =
            ((400, ErrorMessage ''A playlist with this name already exists''), db)" .
next
  assume free: "truthy name \<and>
      (\<forall>p \<in> set (populate p_id (playlists db) (u_playlists user)).
             toLowerCase rt (p_name p) \<noteq> toLowerCase rt (the name)) \<and>
        write_ok rt 0 \<and> write_ok rt 1"
  then have given: "truthy name"
    and "\<forall>p \<in> set (populate p_id (playlists db) (u_playlists user)).
             toLowerCase rt (p_name p) \<noteq> toLowerCase rt (the name)"
    and "write_ok rt 0" and "write_ok rt 1"
    by simp_all
  from create_playlist_created [OF given assms this(2,3,4), of description]
  obtain created db' where
    run: "create_playlist rt db userId name description =
       ((201, PlaylistBody \<lparr>pv_id = newObjectId rt, pv_name = the name,
                pv_description = Some (or_empty description), pv_songs = [],
                pv_image = no_image, pv_createdAt = now rt, pv_updatedAt = now rt\<rparr>), db')"
    and created: "created = \<lparr>p_id = newObjectId rt, p_name = the name,
                p_description = Some (or_empty description), p_spotifyId = None,
                p_user = userId, p_songs = [], p_image = no_image, createdAt = now rt,
                updatedAt = now rt\<rparr>"
    and p: "findById p_id (playlists db') (newObjectId rt) = Some created"
    and u: "findById u_id (users db') userId =
       Some (user\<lparr>u_playlists := u_playlists user @ [newObjectId rt]\<rparr>)"
    and s: "songs db' = songs db"
    by blast
  have name: "p_name created = the name"
    by (simp add: created)
  have again: "\<forall>rt' name' description'.
                truthy name' \<and> toLowerCase rt' (the name') = toLowerCase rt' (the name) \<longrightarrow>
                create_playlist rt' db' userId name' description' =
                  ((400, ErrorMessage ''A playlist with this name already exists''), db')"
    using create_playlist_again [OF p u] by (simp add: name)
  show "\<exists>created db'. create_playlist rt db userId name description =
               ((201, PlaylistBody \<lparr>pv_id = newObjectId rt, pv_name = the name,
                   pv_description = Some (or_empty description), pv_songs = [],
                   pv_image = no_image, pv_createdAt = now rt, pv_updatedAt = now rt\<rparr>), db') \<and>
             created = \<lparr>p_id = newObjectId rt, p_name = the name,
                p_description = Some (or_empty description), p_spotifyId = None,
                p_user = userId, p_songs = [], p_image = no_image, createdAt = now rt,
                updatedAt = now rt\<rparr> \<and>
             findById p_id (playlists db') (newObjectId rt) = Some created \<and>
             findById u_id (users db') userId =
               Some (user\<lparr>u_playlists := u_playlists user @ [newObjectId rt]\<rparr>) \<and>
             songs db' = songs db \<and>
             (\<forall>rt' name' description'.
                truthy name' \<and> toLowerCase rt' (the name') = toLowerCase rt' (the name) \<longrightarrow>
                create_playlist rt' db' userId name' description' =
                  ((400, ErrorMessage ''A playlist with this name already exists''), db'))"
    apply (rule exI [of _ created])
    apply (rule exI [of _ db'])
    apply (insert run created p u s again)
    apply (intro conjI)
         apply assumption+
    done
qed

text \<open>
  The theorem at the owner u1, whose only playlist is Chill: creating Road Trip
  succeeds, and creating road trip after it is refused.
\<close>

theorem create_playlist_conflict_or_created_witness:
  "\<exists>db'. create_playlist runtime1 store1 ''u1'' (Some ''Road Trip'') None =
       ((201, PlaylistBody \<lparr>pv_id = ''n1'', pv_name = ''Road Trip'', pv_description = Some [],
               pv_songs = [], pv_image = no_image, pv_createdAt = 7, pv_updatedAt = 7\<rparr>), db') \<and>
     findById u_id (users db') ''u1'' = Some (user1\<lparr>u_playlists := [''p1'', ''n1'']\<rparr>) \<and>
     create_playlist runtime1 db' ''u1'' (Some ''road trip'') None =
       ((400, ErrorMessage ''A playlist with this name already exists''), db')"
proof -
  have given: "truthy (Some ''Road Trip'')"
    by (simp add: truthy_def)
  have found: "findById u_id (users store1) ''u1'' = Some user1"
    by (simp add: findById_def store1_def user1_def)
  have pls: "populate p_id (playlists store1) (u_playlists user1) = [playlist1]"
    by (simp add: populate_def List.map_filter_def findById_def store1_def user1_def
        playlist1_def)
  have lower: "toLowerCase runtime1 ''Chill'' \<noteq> toLowerCase runtime1 ''Road Trip''"
      "toLowerCase runtime1 ''road trip'' = toLowerCase runtime1 ''Road Trip''"
    by code_simp+
  have free: "truthy (Some ''Road Trip'') \<and>
      (\<forall>p \<in> set (populate p_id (playlists store1) (u_playlists user1)).
        toLowerCase runtime1 (p_name p) \<noteq> toLowerCase runtime1 (the (Some ''Road Trip''))) \<and>
      write_ok runtime1 0 \<and> write_ok runtime1 1"
    using lower(1) given by (simp add: pls playlist1_def) (simp add: runtime1_def)
  from create_playlist_conflict_or_created [OF found, of "Some ''Road Trip''" runtime1 None] free
  obtain created :: playlist and db' where
    run: "create_playlist runtime1 store1 ''u1'' (Some ''Road Trip'') None =
       ((201, PlaylistBody \<lparr>pv_id = newObjectId runtime1, pv_name = the (Some ''Road Trip''),
                   pv_description = Some (or_empty None), pv_songs = [],
                   pv_image = no_image, pv_createdAt = now runtime1,
                   pv_updatedAt = now runtime1\<rparr>), db')"
    and u: "findById u_id (users db') ''u1'' =
               Some (user1\<lparr>u_playlists := u_playlists user1 @ [newObjectId runtime1]\<rparr>)"
    and again: "\<forall>rt' name' description'.
                truthy name' \<and>
                toLowerCase rt' (the name') = toLowerCase rt' (the (Some ''Road Trip'')) \<longrightarrow>
                create_playlist rt' db' ''u1'' name' description' =
                  ((400, ErrorMessage ''A playlist with this name already exists''), db')"
    by blast
  have second: "create_playlist runtime1 db' ''u1'' (Some ''road trip'') None =
       ((400, ErrorMessage ''A playlist with this name already exists''), db')"
    using again lower(2) by (simp add: truthy_def)
  show ?thesis
    using run u second
    by (intro exI [of _ db']) (simp add: runtime1_def or_empty_def user1_def)
qed

text \<open>
  C7 as it is stated fails for an empty name: no playlist of the owner has this name,
  and nothing is created; the route answers 400 because the name is required.
\<close>

theorem create_playlist_empty_name_counterexample:
  "findById u_id (users store1) ''u1'' = Some user1 \<and>
   map p_name (populate p_id (playlists store1) (u_playlists user1)) = [''Chill''] \<and>
   toLowerCase runtime1 ''Chill'' \<noteq> toLowerCase runtime1 [] \<and>
   create_playlist runtime1 store1 ''u1'' (Some []) None =
     ((400, ErrorMessage ''Playlist name is required''), store1)"
proof -
  have "toLowerCase runtime1 ''Chill'' \<noteq> toLowerCase runtime1 []"
    by code_simp
  then show ?thesis
    by (simp add: create_playlist_def truthy_def populate_def List.map_filter_def
        findById_def store1_def user1_def playlist1_def)
qed

subsection \<open>Aggregation routes\<close>

text \<open>
  C2 (as amended). On \<open>mixed\<close> and \<open>mixed1\<close> the response is always a 200 with the
  shuffled songs of the sources whose request resolved, each source giving at most
  its count of tracks (and \<open>mixed1\<close> cutting the shuffled list to 50): a source whose
  request is rejected gives nothing and stops nothing, so that leaving the rejected
  sources out of the list of artists gives the same tracks. On \<open>mixed_hits\<close> the
  three lists are fetched together, and one rejected request makes the response a 500.
\<close>

theorem mixed_tolerates_rejected_sources:
  "mixed api shuffle =
     (200, MixedSongs (shuffle (map mixed_song_of
        (concat (map (\<lambda>artist. case api (a_id artist) of
                                 Rejected \<Rightarrow> []
                               | Resolved None \<Rightarrow> []
                               | Resolved (Some tracks) \<Rightarrow>
                                   map (tag artist) (take (a_count artist) tracks))
                   mixed_artists))))) \<and>
   mixed1 api shuffle =
     (200, MixedSongs (take 50 (shuffle (map mixed_song_of
        (concat (map (\<lambda>artist. case api (a_id artist) of
                                 Rejected \<Rightarrow> []
                               | Resolved None \<Rightarrow> []
                               | Resolved (Some tracks) \<Rightarrow>
                                   map (tag artist) (take (a_count artist) tracks))
                   mixed1_artists)))))) \<and>
   collect_top_tracks api artists [] =
     collect_top_tracks api (filter (\<lambda>artist. api (a_id artist) \<noteq> Rejected) artists) [] \<and>
   (hits_api playlists_english 20 = Rejected \<or> hits_api playlists_punjabi 15 = Rejected \<or>
    hits_api playlists_hindi 15 = Rejected \<longrightarrow>
      mixed_hits hits_api hits_shuffle = (500, ErrorMessage ''Failed to fetch songs''))"
proof (intro conjI impI)
  show "mixed api shuffle =
     (200, MixedSongs (shuffle (map mixed_song_of
        (concat (map (\<lambda>artist. case api (a_id artist) of
                                 Rejected \<Rightarrow> []
                               | Resolved None \<Rightarrow> []
                               | Resolved (Some tracks) \<Rightarrow>
                                   map (tag artist) (take (a_count artist) tracks))
                   mixed_artists)))))"
    by (simp add: mixed_def collect_top_tracks_concat)
  show "mixed1 api shuffle =
     (200, MixedSongs (take 50 (shuffle (map mixed_song_of
        (concat (map (\<lambda>artist. case api (a_id artist) of
                                 Rejected \<Rightarrow> []
                               | Resolved None \<Rightarrow> []
                               | Resolved (Some tracks) \<Rightarrow>
                                   map (tag artist) (take (a_count artist) tracks))
                   mixed1_artists))))))"
    by (simp add: mixed1_def collect_top_tracks_concat)
  show "collect_top_tracks api artists [] =
     collect_top_tracks api (filter (\<lambda>artist. api (a_id artist) \<noteq> Rejected) artists) []"
    by (rule collect_top_tracks_drop_rejected)
  assume "hits_api playlists_english 20 = Rejected \<or> hits_api playlists_punjabi 15 = Rejected \<or>
    hits_api playlists_hindi 15 = Rejected"
  then show "mixed_hits hits_api hits_shuffle = (500, ErrorMessage ''Failed to fetch songs'')"
    by (auto simp: mixed_hits_def split: upstream.splits)
qed

text \<open>
  The theorem with the first artist's request rejected and two of three tracks taken
  from the third artist, and with the third list of \<open>mixed_hits\<close> rejected.
\<close>

theorem mixed_tolerates_rejected_sources_witness:
  "top_tracks1 ''6eUKZXaKkcviH0Ku9w2n3V'' = Rejected \<and>
   mixed top_tracks1 (\<lambda>sent. sent) =
     (200, MixedSongs (map (\<lambda>i. \<lparr>ms_id = i, ms_name = ''Lover'', ms_artists = ''A, B'',
                                  ms_primary_artist = ''Neha Kakkar'', ms_language = ''hindi'',
                                  ms_image = ''http://img/1'',
                                  ms_external_url = ''http://open/sp1'', ms_preview_url = []\<rparr>)
                         [''sp1'', ''sp2''])) \<and>
   hits3 playlists_hindi 15 = Rejected \<and>
   mixed_hits hits3 (\<lambda>tracks. tracks) = (500, ErrorMessage ''Failed to fetch songs'')"
proof -
  have rejected: "hits3 playlists_hindi 15 = Rejected"
    by (simp add: hits3_def)
  from mixed_tolerates_rejected_sources [of top_tracks1 "\<lambda>sent. sent" "[]" hits3 "\<lambda>tracks. tracks"]
  have "mixed top_tracks1 (\<lambda>sent. sent) =
     (200, MixedSongs (map mixed_song_of
        (concat (map (\<lambda>artist. case top_tracks1 (a_id artist) of
                                 Rejected \<Rightarrow> []
                               | Resolved None \<Rightarrow> []
                               | Resolved (Some tracks) \<Rightarrow>
                                   map (tag artist) (take (a_count artist) tracks))
                   mixed_artists))))"
    and "mixed_hits hits3 (\<lambda>tracks. tracks) = (500, ErrorMessage ''Failed to fetch songs'')"
    using rejected by simp_all
  then show ?thesis
    using rejected
    by (simp add: mixed_artists_def top_tracks1_def tag_def mixed_song_of_def track1_def
        album1_def image1_def first_image_url_def or_empty_def)
qed

text \<open>
  C2 as it is stated fails on \<open>mixed_hits\<close>: the first list resolves with a track,
  the second is rejected, and the response is a 500 without any track.
\<close>

theorem mixed_hits_aborts_counterexample:
  "hits2 playlists_english 20 = Resolved [\<lparr>item_track = Some track1\<rparr>] \<and>
   hits2 playlists_punjabi 15 = Rejected \<and>
   hits2 playlists_hindi 15 = Resolved [] \<and>
   mixed_hits hits2 (\<lambda>tracks. tracks) = (500, ErrorMessage ''Failed to fetch songs'')"
  by (simp add: mixed_hits_def hits2_def playlists_english_def playlists_punjabi_def
      playlists_hindi_def)

text \<open>
  C3 (as amended). With a shuffle that only reorders, every song that \<open>mixed\<close> or
  \<open>mixed1\<close> sends comes from a track among the first tracks of a configured artist
  whose request resolved, and carries this artist's name and language. Every song
  that \<open>mixed_hits\<close> sends comes from a track of one of the three lists, and its
  language is computed from the track itself, not taken from the list: it is hindi
  when the album's markets include IN and the title has a character from U+0905 to
  U+0939 (in UTF-8 the bytes E0 A4 and one of 85 to B9); otherwise punjabi when the
  markets include IN and the title has a character from U+0A01 to U+0A74 (the bytes
  E0 A8 and one of 81 to BF, or E0 A9 and one of 80 to B4); otherwise english.
\<close>

theorem mixed_songs_carry_source_tags:
  assumes "\<And>sent. set (shuffle sent) \<subseteq> set sent"
    and "\<And>tracks. set (hits_shuffle tracks) \<subseteq> set tracks"
  shows "(\<forall>sent s. mixed api shuffle = (200, MixedSongs sent) \<and> s \<in> set sent \<longrightarrow>
            (\<exists>artist tracks track. artist \<in> set mixed_artists \<and>
                api (a_id artist) = Resolved (Some tracks) \<and>
                track \<in> set (take (a_count artist) tracks) \<and>
                s = mixed_song_of (tag artist track) \<and>
                ms_primary_artist s = a_name artist \<and> ms_language s = a_language artist)) \<and>
         (\<forall>sent s. mixed1 api shuffle = (200, MixedSongs sent) \<and> s \<in> set sent \<longrightarrow>
            (\<exists>artist tracks track. artist \<in> set mixed1_artists \<and>
                api (a_id artist) = Resolved (Some tracks) \<and>
                track \<in> set (take (a_count artist) tracks) \<and>
                s = mixed_song_of (tag artist track) \<and>
                ms_primary_artist s = a_name artist \<and> ms_language s = a_language artist)) \<and>
         (\<forall>sent s. mixed_hits hits_api hits_shuffle = (200, HitSongs sent) \<and> s \<in> set sent \<longrightarrow>
            (\<exists>items item track album.
                (hits_api playlists_english 20 = Resolved items \<or>
                 hits_api playlists_punjabi 15 = Resolved items \<or>
                 hits_api playlists_hindi 15 = Resolved items) \<and>
                item \<in> set items \<and> item_track item = Some track \<and>
                t_album track = Some album \<and> hs_id s = t_id track \<and>
                hs_name s = t_name track \<and>
                hs_language s =
                (if (\<exists>markets. al_available_markets album = Some markets \<and> ''IN'' \<in> set markets) \<and>
                     (\<exists>pre a b c post. t_name track = pre @ [a, b, c] @ post \<and>
                        of_char a = (224::nat) \<and> of_char b = (164::nat) \<and>
                        (133::nat) \<le> of_char c \<and> of_char c \<le> (185::nat))
                 then ''hindi''
                 else if (\<exists>markets. al_available_markets album = Some markets \<and> ''IN'' \<in> set markets) \<and>
                     (\<exists>pre a b c post. t_name track = pre @ [a, b, c] @ post \<and>
                        of_char a = (224::nat) \<and>
                        ((of_char b = (168::nat) \<and> (129::nat) \<le> of_char c \<and>
                          of_char c \<le> (191::nat)) \<or>
                         (of_char b = (169::nat) \<and> (128::nat) \<le> of_char c \<and>
                          of_char c \<le> (180::nat))))
                 then ''punjabi'' else ''english'')))"
proof (intro conjI allI impI)
  fix sent s
  assume "mixed api shuffle = (200, MixedSongs sent) \<and> s \<in> set sent"
  then have "s \<in> set (shuffle (map mixed_song_of (collect_top_tracks api mixed_artists [])))"
    by (auto simp: mixed_def)
  with assms(1) have "s \<in> set (map mixed_song_of (collect_top_tracks api mixed_artists []))"
    by blast
  then show "\<exists>artist tracks track. artist \<in> set mixed_artists \<and>
                api (a_id artist) = Resolved (Some tracks) \<and>
                track \<in> set (take (a_count artist) tracks) \<and>
                s = mixed_song_of (tag artist track) \<and>
                ms_primary_artist s = a_name artist \<and> ms_language s = a_language artist"
    by (rule mixed_song_tagged)
next
  fix sent s
  assume "mixed1 api shuffle = (200, MixedSongs sent) \<and> s \<in> set sent"
  then have "s \<in> set (take 50 (shuffle (map mixed_song_of
      (collect_top_tracks api mixed1_artists []))))"
    by (auto simp: mixed1_def)
  then have "s \<in> set (shuffle (map mixed_song_of (collect_top_tracks api mixed1_artists [])))"
    by (rule in_set_takeD)
  with assms(1) have "s \<in> set (map mixed_song_of (collect_top_tracks api mixed1_artists []))"
    by blast
  then show "\<exists>artist tracks track. artist \<in> set mixed1_artists \<and>
                api (a_id artist) = Resolved (Some tracks) \<and>
                track \<in> set (take (a_count artist) tracks) \<and>
                s = mixed_song_of (tag artist track) \<and>
                ms_primary_artist s = a_name artist \<and> ms_language s = a_language artist"
    by (rule mixed_song_tagged)
next
  fix sent s
  assume run: "mixed_hits hits_api hits_shuffle = (200, HitSongs sent) \<and> s \<in> set sent"
  then obtain english punjabi hindi every where
    e: "hits_api playlists_english 20 = Resolved english"
    and p: "hits_api playlists_punjabi 15 = Resolved punjabi"
    and h: "hits_api playlists_hindi 15 = Resolved hindi"
    and every: "those (map hit_song_of
              (hits_shuffle (List.map_filter item_track (english @ punjabi @ hindi)))) = Some every"
    and sent: "sent = take 50 every"
    using mixed_hits_sent [of hits_api hits_shuffle sent] by blast
  from run sent have "s \<in> set every"
    by (auto dest: in_set_takeD)
  from those_member [OF every this] obtain track where
    "track \<in> set (hits_shuffle (List.map_filter item_track (english @ punjabi @ hindi)))"
    and song: "hit_song_of track = Some s"
    by auto
  with assms(2) have "track \<in> set (List.map_filter item_track (english @ punjabi @ hindi))"
    by blast
  from map_filter_member [OF this] obtain item where
    item: "item \<in> set (english @ punjabi @ hindi)" "item_track item = Some track"
    by blast
  from hit_song_language [OF song] obtain album where
    album: "t_album track = Some album" "hs_id s = t_id track"
      "hs_name s = t_name track"
      "hs_language s =
                (if (\<exists>markets. al_available_markets album = Some markets \<and> ''IN'' \<in> set markets) \<and>
                     (\<exists>pre a b c post. t_name track = pre @ [a, b, c] @ post \<and>
                        of_char a = (224::nat) \<and> of_char b = (164::nat) \<and>
                        (133::nat) \<le> of_char c \<and> of_char c \<le> (185::nat))
                 then ''hindi''
                 else if (\<exists>markets. al_available_markets album = Some markets \<and> ''IN'' \<in> set markets) \<and>
                     (\<exists>pre a b c post. t_name track = pre @ [a, b, c] @ post \<and>
                        of_char a = (224::nat) \<and>
                        ((of_char b = (168::nat) \<and> (129::nat) \<le> of_char c \<and>
                          of_char c \<le> (191::nat)) \<or>
                         (of_char b = (169::nat) \<and> (128::nat) \<le> of_char c \<and>
                          of_char c \<le> (180::nat))))
                 then ''punjabi'' else ''english'')"
    by blast
  from item(1) have "item \<in> set english \<or> item \<in> set punjabi \<or> item \<in> set hindi"
    by simp
  then show "\<exists>items item track album.
                (hits_api playlists_english 20 = Resolved items \<or>
                 hits_api playlists_punjabi 15 = Resolved items \<or>
                 hits_api playlists_hindi 15 = Resolved items) \<and>
                item \<in> set items \<and> item_track item = Some track \<and>
                t_album track = Some album \<and> hs_id s = t_id track \<and>
                hs_name s = t_name track \<and>
                hs_language s =
                (if (\<exists>markets. al_available_markets album = Some markets \<and> ''IN'' \<in> set markets) \<and>
                     (\<exists>pre a b c post. t_name track = pre @ [a, b, c] @ post \<and>
                        of_char a = (224::nat) \<and> of_char b = (164::nat) \<and>
                        (133::nat) \<le> of_char c \<and> of_char c \<le> (185::nat))
                 then ''hindi''
                 else if (\<exists>markets. al_available_markets album = Some markets \<and> ''IN'' \<in> set markets) \<and>
                     (\<exists>pre a b c post. t_name track = pre @ [a, b, c] @ post \<and>
                        of_char a = (224::nat) \<and>
                        ((of_char b = (168::nat) \<and> (129::nat) \<le> of_char c \<and>
                          of_char c \<le> (191::nat)) \<or>
                         (of_char b = (169::nat) \<and> (128::nat) \<le> of_char c \<and>
                          of_char c \<le> (180::nat))))
                 then ''punjabi'' else ''english'')"
    using e p h item(2) album by blast
qed

text \<open>
  The theorem with two tracks taken from the third artist of \<open>mixed\<close>, and with three
  tracks of the english list of \<open>mixed_hits\<close>, all available in the market IN: the
  title with U+0915 is sent as hindi, the one with U+0950 as english and the one with
  U+0A15 as punjabi.
\<close>

theorem mixed_songs_carry_source_tags_witness:
  "(\<exists>first second. mixed top_tracks1 (\<lambda>sent. sent) = (200, MixedSongs [first, second]) \<and>
     (\<exists>artist tracks track. artist \<in> set mixed_artists \<and>
        top_tracks1 (a_id artist) = Resolved (Some tracks) \<and>
        track \<in> set (take (a_count artist) tracks) \<and>
        first = mixed_song_of (tag artist track) \<and>
        ms_primary_artist first = a_name artist \<and> ms_language first = a_language artist) \<and>
     ms_primary_artist first = ''Neha Kakkar'' \<and> ms_language first = ''hindi'') \<and>
   (\<exists>sent. mixed_hits hits4 (\<lambda>tracks. tracks) = (200, HitSongs sent) \<and>
     map hs_id sent = [''sp4'', ''sp5'', ''sp6''] \<and>
     map hs_language sent = [''hindi'', ''english'', ''punjabi''])"
proof -
  have run: "mixed top_tracks1 (\<lambda>sent. sent) =
     (200, MixedSongs (map (\<lambda>i. \<lparr>ms_id = i, ms_name = ''Lover'', ms_artists = ''A, B'',
                                  ms_primary_artist = ''Neha Kakkar'', ms_language = ''hindi'',
                                  ms_image = ''http://img/1'',
                                  ms_external_url = ''http://open/sp1'', ms_preview_url = []\<rparr>)
                         [''sp1'', ''sp2'']))"
    by (simp add: mixed_def mixed_artists_def top_tracks1_def tag_def mixed_song_of_def
        track1_def album1_def image1_def first_image_url_def or_empty_def)
  have hits: "\<exists>sent. mixed_hits hits4 (\<lambda>tracks. tracks) = (200, HitSongs sent) \<and>
     map hs_id sent = [''sp4'', ''sp5'', ''sp6''] \<and>
     map hs_language sent = [''hindi'', ''english'', ''punjabi'']"
    by (simp add: mixed_hits_def hits4_def playlists_english_def playlists_punjabi_def
        playlists_hindi_def List.map_filter_def hit_song_of_def track_ka_def track_om_def
        track_gu_def track1_def album1_def hit_language_def)
  have keeps: "\<And>sent :: mixed_song list. set ((\<lambda>sent. sent) sent) \<subseteq> set sent"
    and keeps': "\<And>tracks :: track list. set ((\<lambda>tracks. tracks) tracks) \<subseteq> set tracks"
    by simp_all
  note tags = mixed_songs_carry_source_tags [where shuffle = "\<lambda>sent. sent"
      and hits_shuffle = "\<lambda>tracks. tracks" and api = top_tracks1 and hits_api = hits4,
      OF keeps keeps']
  have mixed_part: "\<exists>first second.
     mixed top_tracks1 (\<lambda>sent. sent) = (200, MixedSongs [first, second]) \<and>
     (\<exists>artist tracks track. artist \<in> set mixed_artists \<and>
        top_tracks1 (a_id artist) = Resolved (Some tracks) \<and>
        track \<in> set (take (a_count artist) tracks) \<and>
        first = mixed_song_of (tag artist track) \<and>
        ms_primary_artist first = a_name artist \<and> ms_language first = a_language artist) \<and>
     ms_primary_artist first = ''Neha Kakkar'' \<and> ms_language first = ''hindi''"
    using tags [THEN conjunct1] run by simp
  from mixed_part hits show ?thesis
    by (rule conjI)
qed

text \<open>
  C3 as it is stated fails on \<open>mixed_hits\<close>: the only track comes from the list
  configured as punjabi, its title is in Latin script, and it is sent as english.
\<close>

theorem mixed_hits_language_counterexample:
  "hits1 playlists_english 20 = Resolved [] \<and>
   hits1 playlists_punjabi 15 = Resolved [\<lparr>item_track = Some track1\<rparr>] \<and>
   hits1 playlists_hindi 15 = Resolved [] \<and>
   (\<exists>s. mixed_hits hits1 (\<lambda>tracks. tracks) = (200, HitSongs [s]) \<and>
      hs_id s = t_id track1 \<and> hs_language s = ''english'')"
  by (simp add: mixed_hits_def hits1_def playlists_english_def playlists_punjabi_def
      playlists_hindi_def List.map_filter_def hit_song_of_def track1_def album1_def
      hit_language_def)

end
